theory Spec2Isabelle
  imports Main
begin

section \<open>JavaScript values\<close>

text \<open>
  The admin panel handles JSON data received from the backend. A value is one of the JSON
  shapes, or \<open>undefined\<close>. An object is the list of its own properties in enumeration
  order. The code below only asks a number for its type, its truthiness, its equality with
  another value and its decimal text, so numbers are modelled as integers (a fraction such
  as \<open>7.5\<close> has no representation; it would behave as any other non-zero number).
\<close>

datatype jsval =
    JUndefined
  | JNull
  | JBool bool
  | JNum int
  | JStr string
  | JArr "jsval list"
  | JObj "(string \<times> jsval) list"

datatype js_error = TypeError

text \<open>JavaScript truthiness (\<open>if (v)\<close>, \<open>v || d\<close>, \<open>!!v\<close>).\<close>

fun truthy :: "jsval \<Rightarrow> bool" where
  "truthy JUndefined = False"
| "truthy JNull = False"
| "truthy (JBool b) = b"
| "truthy (JNum n) = (n \<noteq> 0)"
| "truthy (JStr s) = (s \<noteq> [])"
| "truthy (JArr xs) = True"
| "truthy (JObj fs) = True"

fun nullish :: "jsval \<Rightarrow> bool" where
  "nullish JUndefined = True"
| "nullish JNull = True"
| "nullish v = False"

text \<open>\<open>typeof v === 'string'\<close>\<close>

fun is_string :: "jsval \<Rightarrow> bool" where
  "is_string (JStr s) = True"
| "is_string v = False"

text \<open>Reading an own property of an object: the value, or \<open>undefined\<close> when absent.\<close>

definition own_prop :: "(string \<times> jsval) list \<Rightarrow> string \<Rightarrow> jsval" where
  "own_prop fs k = (case map_of fs k of None \<Rightarrow> JUndefined | Some v \<Rightarrow> v)"

text \<open>
  \<open>v.k\<close> for the property names the program reads (\<open>products\<close>, \<open>main_image\<close>,
  \<open>colors\<close>, \<open>sizes\<close>, \<open>value\<close>, \<open>role\<close>, \<open>token\<close>, \<open>user\<close>, \<open>error\<close>): none of them is
  defined by a built-in prototype, so only objects can have them. Reading a property of
  \<open>undefined\<close> or \<open>null\<close> throws.
\<close>

fun member :: "jsval \<Rightarrow> string \<Rightarrow> js_error + jsval" where
  "member JUndefined k = Inl TypeError"
| "member JNull k = Inl TypeError"
| "member (JObj fs) k = Inr (own_prop fs k)"
| "member v k = Inr JUndefined"

text \<open>\<open>v?.k\<close>: \<open>undefined\<close> instead of throwing.\<close>

fun opt_member :: "jsval \<Rightarrow> string \<Rightarrow> jsval" where
  "opt_member (JObj fs) k = own_prop fs k"
| "opt_member v k = JUndefined"

text \<open>
  Writing a property in an object literal: an existing key keeps its place and takes the
  new value, a new key goes to the end.
\<close>

fun set_prop :: "(string \<times> jsval) list \<Rightarrow> string \<Rightarrow> jsval \<Rightarrow> (string \<times> jsval) list" where
  "set_prop [] k v = [(k, v)]"
| "set_prop ((k', v') # fs) k v =
     (if k' = k then (k', v) # fs else (k', v') # set_prop fs k v)"

text \<open>Decimal digits of an array index, for the keys of a spread array or string.\<close>

function show_nat :: "nat \<Rightarrow> string" where
  "show_nat n =
     (if n < 10 then [char_of (48 + n)]
      else show_nat (n div 10) @ [char_of (48 + n mod 10)])"
  by pat_completeness auto
termination
  by (relation "measure id") auto

declare show_nat.simps [simp del]

text \<open>
  \<open>{...v}\<close>: the own enumerable properties of \<open>v\<close>. An array or a string spreads its
  elements (for a string, its characters) under their indices, every other primitive
  spreads nothing.
\<close>

fun spread :: "jsval \<Rightarrow> (string \<times> jsval) list" where
  "spread (JObj fs) = fs"
| "spread (JArr xs) = zip (map show_nat [0..<length xs]) xs"
| "spread (JStr s) = zip (map show_nat [0..<length s]) (map (\<lambda>c. JStr [c]) s)"
| "spread v = []"

text \<open>\<open>Array.prototype.map\<close> with a callback that may throw: the first throw wins.\<close>

fun map_throwing :: "('a \<Rightarrow> js_error + 'b) \<Rightarrow> 'a list \<Rightarrow> js_error + 'b list" where
  "map_throwing f [] = Inr []"
| "map_throwing f (x # xs) =
     (case f x of
        Inl e \<Rightarrow> Inl e
      | Inr y \<Rightarrow> (case map_throwing f xs of Inl e \<Rightarrow> Inl e | Inr ys \<Rightarrow> Inr (y # ys)))"

text \<open>
  \<open>v.map(f)\<close>: only an array has a callable \<open>map\<close>; on any other value the call throws
  (JSON data holds no functions).
\<close>

fun call_map :: "(jsval \<Rightarrow> js_error + jsval) \<Rightarrow> jsval \<Rightarrow> js_error + jsval" where
  "call_map f (JArr xs) =
     (case map_throwing f xs of Inl e \<Rightarrow> Inl e | Inr ys \<Rightarrow> Inr (JArr ys))"
| "call_map f v = Inl TypeError"

text \<open>\<open>v?.map\<close> as a condition: truthy on arrays, and on objects with a truthy \<open>map\<close> property.\<close>

fun has_map :: "jsval \<Rightarrow> bool" where
  "has_map (JArr xs) = True"
| "has_map (JObj fs) = truthy (own_prop fs ''map'')"
| "has_map v = False"

section \<open>Product listing normalization (services/api.js, productsAPI.getAll)\<close>

text \<open>\<open>c => typeof c === 'string' ? c : c.value\<close>\<close>

definition normalize_color :: "jsval \<Rightarrow> js_error + jsval" where
  "normalize_color c = (if is_string c then Inr c else member c ''value'')"

text \<open>\<open>s => typeof s === 'string' ? { value: s } : s\<close>\<close>

definition normalize_size :: "jsval \<Rightarrow> jsval" where
  "normalize_size s = (if is_string s then JObj [(''value'', s)] else s)"

text \<open>\<open>p.colors?.map ? p.colors.map(...) : p.colors || []\<close>, given the value of \<open>p.colors\<close>.\<close>

definition normalize_colors :: "jsval \<Rightarrow> js_error + jsval" where
  "normalize_colors cs =
     (if has_map cs then call_map normalize_color cs
      else Inr (if truthy cs then cs else JArr []))"

definition normalize_sizes :: "jsval \<Rightarrow> js_error + jsval" where
  "normalize_sizes ss =
     (if has_map ss then call_map (\<lambda>s. Inr (normalize_size s)) ss
      else Inr (if truthy ss then ss else JArr []))"

text \<open>
  The callback of \<open>products.map\<close>:
  \<open>p => ({ ...p, image: p.main_image, colors: ..., sizes: ... })\<close>.
\<close>

definition normalize_product :: "jsval \<Rightarrow> js_error + jsval" where
  "normalize_product p =
     (case member p ''main_image'' of
        Inl e \<Rightarrow> Inl e
      | Inr img \<Rightarrow>
         \<comment> \<open>\<open>p.main_image\<close> has thrown already when \<open>p\<close> is \<open>null\<close> or \<open>undefined\<close>,
             so \<open>p.colors\<close> and \<open>p.sizes\<close> are read from a value that has properties\<close>
         (case normalize_colors (opt_member p ''colors'') of
            Inl e \<Rightarrow> Inl e
          | Inr cs \<Rightarrow>
             (case normalize_sizes (opt_member p ''sizes'') of
                Inl e \<Rightarrow> Inl e
              | Inr ss \<Rightarrow>
                 Inr (JObj (set_prop (set_prop (set_prop (spread p)
                        ''image'' img) ''colors'' cs) ''sizes'' ss)))))"

text \<open>
  \<open>response.data.products?.map(...) || []\<close>, given \<open>response.data\<close>: the list
  \<open>products\<close> that \<open>getAll\<close> returns.
\<close>

definition getAll_products :: "jsval \<Rightarrow> js_error + jsval" where
  "getAll_products d =
     (case member d ''products'' of
        Inl e \<Rightarrow> Inl e
      | Inr ps \<Rightarrow>
         if nullish ps then Inr (JArr []) else call_map normalize_product ps)"

text \<open>\<open>return { data: { success: true, products } }\<close>\<close>

definition productsAPI_getAll :: "jsval \<Rightarrow> js_error + jsval" where
  "productsAPI_getAll d =
     (case getAll_products d of
        Inl e \<Rightarrow> Inl e
      | Inr products \<Rightarrow>
         Inr (JObj [(''data'', JObj [(''success'', JBool True), (''products'', products)])]))"

section \<open>Color and size enumeration (services/api.js, colorsAPI.getAll, sizesAPI.getAll)\<close>

text \<open>
  \<open>Array.prototype.flatMap\<close>: a callback result that is an array contributes its elements
  (one level), any other result contributes itself.
\<close>

fun flatten1 :: "jsval \<Rightarrow> jsval list" where
  "flatten1 (JArr xs) = xs"
| "flatten1 v = [v]"

fun call_flatMap :: "(jsval \<Rightarrow> js_error + jsval) \<Rightarrow> jsval \<Rightarrow> js_error + jsval list" where
  "call_flatMap f (JArr xs) =
     (case map_throwing f xs of Inl e \<Rightarrow> Inl e | Inr ys \<Rightarrow> Inr (concat (map flatten1 ys)))"
| "call_flatMap f v = Inl TypeError"

text \<open>\<open>p => p.colors || []\<close> and \<open>p => p.sizes || []\<close>, for the property name \<open>k\<close>.\<close>

definition prop_or_empty :: "string \<Rightarrow> jsval \<Rightarrow> js_error + jsval" where
  "prop_or_empty k p =
     (case member p k of
        Inl e \<Rightarrow> Inl e
      | Inr v \<Rightarrow> Inr (if truthy v then v else JArr []))"

text \<open>\<open>response.data.products?.flatMap(p => p.k || []) || []\<close>, given \<open>response.data\<close>.\<close>

definition flatten_products :: "string \<Rightarrow> jsval \<Rightarrow> js_error + jsval list" where
  "flatten_products k d =
     (case member d ''products'' of
        Inl e \<Rightarrow> Inl e
      | Inr ps \<Rightarrow> if nullish ps then Inr [] else call_flatMap (prop_or_empty k) ps)"

text \<open>
  Keys of a \<open>Map\<close> and members of a \<open>Set\<close> are compared by SameValueZero: primitives by
  value, objects and arrays by identity. The values compared here are distinct occurrences
  in one parsed JSON response, and parsing creates a fresh object for every occurrence, so
  an object or an array is never the same as an earlier element.
\<close>

fun same_value_zero :: "jsval \<Rightarrow> jsval \<Rightarrow> bool" where
  "same_value_zero a (JArr xs) = False"
| "same_value_zero a (JObj fs) = False"
| "same_value_zero a b = (a = b)"

text \<open>\<open>Map.prototype.set\<close>: an existing key keeps its place and takes the new value.\<close>

fun Map_set :: "(jsval \<times> jsval) list \<Rightarrow> jsval \<Rightarrow> jsval \<Rightarrow> (jsval \<times> jsval) list" where
  "Map_set [] k v = [(k, v)]"
| "Map_set ((k', v') # m) k v =
     (if same_value_zero k' k then (k', v) # m else (k', v') # Map_set m k v)"

definition new_Map :: "(jsval \<times> jsval) list \<Rightarrow> (jsval \<times> jsval) list" where
  "new_Map entries = foldl (\<lambda>m (k, v). Map_set m k v) [] entries"

definition Map_values :: "(jsval \<times> jsval) list \<Rightarrow> jsval list" where
  "Map_values m = map snd m"

definition Set_add :: "jsval list \<Rightarrow> jsval \<Rightarrow> jsval list" where
  "Set_add xs v = (if list_ex (\<lambda>x. same_value_zero x v) xs then xs else xs @ [v])"

definition new_Set :: "jsval list \<Rightarrow> jsval list" where
  "new_Set vs = foldl Set_add [] vs"

text \<open>\<open>c => [typeof c === 'string' ? c : c, { id: c, value: c }]\<close>\<close>

definition color_entry :: "jsval \<Rightarrow> jsval \<times> jsval" where
  "color_entry c = (if is_string c then c else c, JObj [(''id'', c), (''value'', c)])"

definition uniqueColors :: "jsval \<Rightarrow> js_error + jsval list" where
  "uniqueColors d =
     (case flatten_products ''colors'' d of
        Inl e \<Rightarrow> Inl e
      | Inr allColors \<Rightarrow> Inr (Map_values (new_Map (map color_entry allColors))))"

text \<open>\<open>return { data: { colors: uniqueColors } }\<close>\<close>

definition colorsAPI_getAll :: "jsval \<Rightarrow> js_error + jsval" where
  "colorsAPI_getAll d =
     (case uniqueColors d of
        Inl e \<Rightarrow> Inl e
      | Inr cs \<Rightarrow> Inr (JObj [(''data'', JObj [(''colors'', JArr cs)])]))"

text \<open>\<open>[...new Set(allSizes)].map(v => ({ id: v, value: v }))\<close>\<close>

definition sizes_list :: "jsval \<Rightarrow> js_error + jsval list" where
  "sizes_list d =
     (case flatten_products ''sizes'' d of
        Inl e \<Rightarrow> Inl e
      | Inr allSizes \<Rightarrow>
         Inr (map (\<lambda>v. JObj [(''id'', v), (''value'', v)]) (new_Set allSizes)))"

text \<open>\<open>return { data: { sizes } }\<close>\<close>

definition sizesAPI_getAll :: "jsval \<Rightarrow> js_error + jsval" where
  "sizesAPI_getAll d =
     (case sizes_list d of
        Inl e \<Rightarrow> Inl e
      | Inr ss \<Rightarrow> Inr (JObj [(''data'', JObj [(''sizes'', JArr ss)])]))"

section \<open>Browser state\<close>

text \<open>
  The state the program reads and writes: the browser's \<open>localStorage\<close> and
  \<open>window.location.href\<close>, and the two state cells of \<open>AdminAuthProvider\<close> (\<open>admin\<close>,
  \<open>loading\<close>). Every storage call and every assignment to the location is also recorded in
  \<open>trace\<close>, oldest first, so that the number of clears and redirects can be counted.
  Storage is taken to have room for the two entries (\<open>setItem\<close> does not throw).
\<close>

datatype effect = SetItem string string | RemoveItem string | Redirect string

record world =
  localStorage :: "string \<rightharpoonup> string"
  href :: string
  admin :: jsval
  loading :: bool
  trace :: "effect list"

text \<open>\<open>localStorage.getItem(k)\<close>: \<open>None\<close> is \<open>null\<close>.\<close>

definition getItem :: "world \<Rightarrow> string \<Rightarrow> string option" where
  "getItem w k = localStorage w k"

definition setItem :: "string \<Rightarrow> string \<Rightarrow> world \<Rightarrow> world" where
  "setItem k v w = w\<lparr>localStorage := (localStorage w)(k \<mapsto> v), trace := trace w @ [SetItem k v]\<rparr>"

definition removeItem :: "string \<Rightarrow> world \<Rightarrow> world" where
  "removeItem k w = w\<lparr>localStorage := (localStorage w)(k := None), trace := trace w @ [RemoveItem k]\<rparr>"

text \<open>\<open>window.location.href = u\<close>\<close>

definition assign_href :: "string \<Rightarrow> world \<Rightarrow> world" where
  "assign_href u w = w\<lparr>href := u, trace := trace w @ [Redirect u]\<rparr>"

definition setAdmin :: "jsval \<Rightarrow> world \<Rightarrow> world" where
  "setAdmin u w = w\<lparr>admin := u\<rparr>"

definition setLoading :: "bool \<Rightarrow> world \<Rightarrow> world" where
  "setLoading b w = w\<lparr>loading := b\<rparr>"

text \<open>Truthiness of what \<open>getItem\<close> returns: \<open>null\<close> and the empty string are falsy.\<close>

fun present :: "string option \<Rightarrow> bool" where
  "present None = False"
| "present (Some s) = (s \<noteq> [])"

section \<open>The HTTP client and its interceptors (services/api.js)\<close>

record request_config =
  http_method :: string
  url :: string
  headers :: "string \<rightharpoonup> string"
  payload :: jsval

record http_response =
  status :: int
  body :: jsval

text \<open>An axios error: \<open>error.response\<close> is undefined when no response was received.\<close>

datatype axios_error = AxiosError "http_response option"

text \<open>What the backend, or the network, answers to a request.\<close>

datatype http_outcome = Responded http_response | NoResponse

text \<open>
  The request interceptor:
  \<open>const token = localStorage.getItem('admin_token');
   if (token) { config.headers.Authorization = `Bearer ${token}`; }
   return config;\<close>
\<close>

definition request_interceptor :: "world \<Rightarrow> request_config \<Rightarrow> request_config" where
  "request_interceptor w config =
     (case getItem w ''admin_token'' of
        None \<Rightarrow> config
      | Some token \<Rightarrow>
         if token \<noteq> [] then
           config\<lparr>headers := (headers config)(''Authorization'' \<mapsto> ''Bearer '' @ token)\<rparr>
         else config)"

text \<open>\<open>error.response?.status === 401\<close>\<close>

fun is_401 :: "axios_error \<Rightarrow> bool" where
  "is_401 (AxiosError None) = False"
| "is_401 (AxiosError (Some r)) = (status r = 401)"

text \<open>
  The rejection handler of the response interceptor. It returns the state after its side
  effects together with the error it rejects with (\<open>return Promise.reject(error)\<close>).
\<close>

definition response_error_interceptor :: "axios_error \<Rightarrow> world \<Rightarrow> world \<times> axios_error" where
  "response_error_interceptor error w =
     (if is_401 error then
        (assign_href ''/login'' (removeItem ''admin_user'' (removeItem ''admin_token'' w)), error)
      else (w, error))"

text \<open>
  One request through \<open>adminAxios\<close>: the request interceptor, the exchange with the
  backend, and the response interceptor. Axios fulfils a response whose status is in
  \<open>200..299\<close> (its default \<open>validateStatus\<close>; the instance sets no other) and rejects every
  other outcome; a fulfilled response passes the interceptor unchanged
  (\<open>(response) => response\<close>).
\<close>

definition adminAxios_request ::
  "(request_config \<Rightarrow> http_outcome) \<Rightarrow> request_config \<Rightarrow> world
     \<Rightarrow> world \<times> (axios_error + http_response)" where
  "adminAxios_request server config w =
     (case server (request_interceptor w config) of
        Responded r \<Rightarrow>
          if 200 \<le> status r \<and> status r < 300 then (w, Inr r)
          else (case response_error_interceptor (AxiosError (Some r)) w of
                  (w', e) \<Rightarrow> (w', Inl e))
      | NoResponse \<Rightarrow>
          (case response_error_interceptor (AxiosError None) w of
             (w', e) \<Rightarrow> (w', Inl e)))"

text \<open>A batch of rejected responses, handled one after the other.\<close>

fun intercept_all :: "axios_error list \<Rightarrow> world \<Rightarrow> world" where
  "intercept_all [] w = w"
| "intercept_all (e # es) w = intercept_all es (fst (response_error_interceptor e w))"

text \<open>
  The state after the handler has run on a 401: both entries removed, the location set to
  \<open>/login\<close>, and the three calls recorded.
\<close>

definition cleared :: "world \<Rightarrow> world" where
  "cleared w =
     w\<lparr>localStorage := (localStorage w)(''admin_token'' := None, ''admin_user'' := None),
       href := ''/login'',
       trace := trace w @ [RemoveItem ''admin_token'', RemoveItem ''admin_user'',
                           Redirect ''/login'']\<rparr>"

section \<open>The auth controller (context/AdminAuthContext.jsx)\<close>

text \<open>The provider starts with \<open>useState(null)\<close> and \<open>useState(true)\<close>.\<close>

definition initial_world :: "(string \<rightharpoonup> string) \<Rightarrow> world" where
  "initial_world store =
     \<lparr>localStorage = store, href = ''/'', admin = JNull, loading = True, trace = []\<rparr>"

text \<open>
  The session-restore effect, run once on mount. \<open>JSON.parse\<close> is a parameter: it returns
  \<open>None\<close> where the built-in throws.
\<close>

definition restore_session :: "(string \<Rightarrow> jsval option) \<Rightarrow> world \<Rightarrow> world" where
  "restore_session json_parse w =
     (let token = getItem w ''admin_token'';
          adminData = getItem w ''admin_user'';
          w1 = (if present token \<and> present adminData then
                  (case json_parse (case adminData of Some s \<Rightarrow> s | None \<Rightarrow> []) of
                     Some u \<Rightarrow> setAdmin u w
                   | None \<Rightarrow> removeItem ''admin_user'' (removeItem ''admin_token'' w))
                else w)
      in setLoading False w1)"

text \<open>
  \<open>String(v)\<close>, the conversion \<open>setItem\<close> applies to the value it stores. A number prints
  as its decimal digits, which is what JavaScript prints for an integer of magnitude below
  \<open>10^21\<close>; larger ones print in exponent notation there. No property below depends on
  the text stored for a numeric token.
\<close>

definition show_int :: "int \<Rightarrow> string" where
  "show_int i = (if i < 0 then ''-'' @ show_nat (nat (- i)) else show_nat (nat i))"

fun join_comma :: "string list \<Rightarrow> string" where
  "join_comma [] = []"
| "join_comma [s] = s"
| "join_comma (s # ss) = s @ '','' @ join_comma ss"

fun to_string :: "jsval \<Rightarrow> string" where
  "to_string JUndefined = ''undefined''"
| "to_string JNull = ''null''"
| "to_string (JBool b) = (if b then ''true'' else ''false'')"
| "to_string (JNum n) = show_int n"
| "to_string (JStr s) = s"
| "to_string (JArr xs) = join_comma (map (\<lambda>x. if nullish x then [] else to_string x) xs)"
| "to_string (JObj fs) = ''[object Object]''"

datatype login_result = LoginSuccess | LoginFailure jsval

text \<open>What the \<open>catch\<close> clause of \<open>login\<close> can receive.\<close>

datatype thrown = Rejected axios_error | Thrown js_error

text \<open>\<open>error.response?.data?.error || 'Login failed'\<close>\<close>

fun login_error_message :: "thrown \<Rightarrow> jsval" where
  "login_error_message (Rejected (AxiosError (Some r))) =
     (let m = opt_member (body r) ''error'' in if truthy m then m else JStr ''Login failed'')"
| "login_error_message t = JStr ''Login failed''"

text \<open>
  \<open>login(email, password)\<close>. \<open>JSON.stringify\<close> and the backend are parameters.
  \<open>const { token, user } = response.data\<close> throws when \<open>response.data\<close> is \<open>null\<close> or
  \<open>undefined\<close>, \<open>user.role\<close> throws when \<open>user\<close> is; both land in the \<open>catch\<close> clause.
\<close>

definition login_request :: "string \<Rightarrow> string \<Rightarrow> request_config" where
  "login_request email password =
     \<lparr>http_method = ''POST'', url = ''/auth/login'', headers = Map.empty,
      payload = JObj [(''email'', JStr email), (''password'', JStr password)]\<rparr>"

definition login ::
  "(jsval \<Rightarrow> string) \<Rightarrow> (request_config \<Rightarrow> http_outcome) \<Rightarrow> string \<Rightarrow> string \<Rightarrow> world
     \<Rightarrow> world \<times> login_result" where
  "login json_stringify server email password w =
     (case adminAxios_request server (login_request email password) w of
        (w1, Inl e) \<Rightarrow> (w1, LoginFailure (login_error_message (Rejected e)))
      | (w1, Inr response) \<Rightarrow>
         (case member (body response) ''token'' of
            Inl e \<Rightarrow> (w1, LoginFailure (login_error_message (Thrown e)))
          | Inr token \<Rightarrow>
             (let user = opt_member (body response) ''user'' in
              case member user ''role'' of
                Inl e \<Rightarrow> (w1, LoginFailure (login_error_message (Thrown e)))
              | Inr role \<Rightarrow>
                 if role \<noteq> JStr ''ADMIN'' then
                   (w1, LoginFailure (JStr ''Access denied. Admin privileges required.''))
                 else
                   (setAdmin user
                      (setItem ''admin_user'' (json_stringify user)
                         (setItem ''admin_token'' (to_string token) w1)),
                    LoginSuccess))))"

definition logout :: "world \<Rightarrow> world" where
  "logout w = setAdmin JNull (removeItem ''admin_user'' (removeItem ''admin_token'' w))"

text \<open>\<open>isAuthenticated: !!admin\<close>\<close>

definition isAuthenticated :: "world \<Rightarrow> bool" where
  "isAuthenticated w = truthy (admin w)"

text \<open>
  The three states of the auth controller, read off the two state cells: \<open>Unknown\<close> while
  \<open>loading\<close>, then \<open>Authenticated\<close> or \<open>Unauthenticated\<close>.
\<close>

datatype auth_state = Unknown | Unauthenticated | Authenticated jsval

definition auth_state_of :: "world \<Rightarrow> auth_state" where
  "auth_state_of w =
     (if loading w then Unknown
      else if isAuthenticated w then Authenticated (admin w)
      else Unauthenticated)"

section \<open>The route guard (components/ProtectedRoute.jsx)\<close>

text \<open>
  What the guard renders: the spinner, the child route (\<open><Outlet />\<close>), or
  \<open><Navigate to=... replace />\<close> (the flag is the \<open>replace\<close> prop).
\<close>

datatype element = Spinner | Outlet | Navigate string bool

definition ProtectedRoute :: "world \<Rightarrow> element" where
  "ProtectedRoute w =
     (if loading w then Spinner
      else if isAuthenticated w then Outlet
      else Navigate ''/login'' True)"

section \<open>Operations on the session\<close>

text \<open>
  The operations of the program that can touch the persisted session: the restore effect,
  \<open>login\<close>, \<open>logout\<close>, and any request sent through \<open>adminAxios\<close> (whose response may be
  intercepted). The JSON built-ins and the backend are collected in one environment.
\<close>

record environment =
  env_parse :: "string \<Rightarrow> jsval option"
  env_stringify :: "jsval \<Rightarrow> string"
  env_server :: "request_config \<Rightarrow> http_outcome"

datatype operation =
    Restore
  | Login string string
  | Logout
  | Request request_config

fun run_op :: "environment \<Rightarrow> operation \<Rightarrow> world \<Rightarrow> world" where
  "run_op env Restore w = restore_session (env_parse env) w"
| "run_op env (Login email password) w =
     fst (login (env_stringify env) (env_server env) email password w)"
| "run_op env Logout w = logout w"
| "run_op env (Request config) w = fst (adminAxios_request (env_server env) config w)"

fun run_ops :: "environment \<Rightarrow> operation list \<Rightarrow> world \<Rightarrow> world" where
  "run_ops env [] w = w"
| "run_ops env (op # ops) w = run_ops env ops (run_op env op w)"

text \<open>The storage calls an operation made: the part of the trace it added, redirects left out.\<close>

fun is_storage_effect :: "effect \<Rightarrow> bool" where
  "is_storage_effect (Redirect u) = False"
| "is_storage_effect e = True"

definition storage_calls :: "world \<Rightarrow> world \<Rightarrow> effect list" where
  "storage_calls w w' = filter is_storage_effect (drop (length (trace w)) (trace w'))"

section \<open>Shapes of the data\<close>

text \<open>A primitive value: anything but an array or an object.\<close>

fun primitive :: "jsval \<Rightarrow> bool" where
  "primitive (JArr xs) = False"
| "primitive (JObj fs) = False"
| "primitive v = True"

text \<open>
  The shapes the backend uses for a color and a size: a bare string, or an object with a
  \<open>value\<close> property (for a color, one that holds a string).
\<close>

fun is_value_object :: "jsval \<Rightarrow> bool" where
  "is_value_object (JObj fs) = (map_of fs ''value'' \<noteq> None)"
| "is_value_object v = False"

fun raw_color :: "jsval \<Rightarrow> bool" where
  "raw_color (JStr s) = True"
| "raw_color (JObj fs) = is_string (own_prop fs ''value'')"
| "raw_color v = False"

fun raw_size :: "jsval \<Rightarrow> bool" where
  "raw_size (JStr s) = True"
| "raw_size v = is_value_object v"

text \<open>The name a raw color stands for: the string itself, or the \<open>value\<close> of the object.\<close>

fun color_name :: "jsval \<Rightarrow> jsval" where
  "color_name (JObj fs) = own_prop fs ''value''"
| "color_name v = v"

fun string_array :: "jsval \<Rightarrow> bool" where
  "string_array (JArr xs) = list_all is_string xs"
| "string_array v = False"

fun value_object_array :: "jsval \<Rightarrow> bool" where
  "value_object_array (JArr xs) = list_all is_value_object xs"
| "value_object_array v = False"

text \<open>
  A normalized product record: an object whose \<open>image\<close> is its \<open>main_image\<close>, whose
  \<open>colors\<close> is an array of strings and whose \<open>sizes\<close> is an array of \<open>{value}\<close> objects.
\<close>

fun normalized_product :: "jsval \<Rightarrow> bool" where
  "normalized_product (JObj gs) =
     (map_of gs ''image'' = Some (own_prop gs ''main_image'')
      \<and> string_array (own_prop gs ''colors'')
      \<and> value_object_array (own_prop gs ''sizes''))"
| "normalized_product v = False"

text \<open>
  A raw product record: an object whose \<open>colors\<close>, when given, is an array of raw colors,
  and whose \<open>sizes\<close>, when given, is an array.
\<close>

fun raw_color_array :: "jsval \<Rightarrow> bool" where
  "raw_color_array JUndefined = True"
| "raw_color_array (JArr xs) = list_all raw_color xs"
| "raw_color_array v = False"

fun raw_size_array :: "jsval \<Rightarrow> bool" where
  "raw_size_array JUndefined = True"
| "raw_size_array (JArr xs) = list_all raw_size xs"
| "raw_size_array v = False"

fun array_or_absent :: "jsval \<Rightarrow> bool" where
  "array_or_absent JUndefined = True"
| "array_or_absent (JArr xs) = True"
| "array_or_absent v = False"

fun raw_product :: "jsval \<Rightarrow> bool" where
  "raw_product (JObj fs) =
     (raw_color_array (own_prop fs ''colors'') \<and> array_or_absent (own_prop fs ''sizes''))"
| "raw_product v = False"

section \<open>Basic facts\<close>

lemma initial_world_simps [simp]:
  "localStorage (initial_world store) = store"
  "href (initial_world store) = ''/''"
  "admin (initial_world store) = JNull"
  "loading (initial_world store) = True"
  "trace (initial_world store) = []"
  by (simp_all add: initial_world_def)

lemma restore_absent:
  "\<not> (present (getItem w ''admin_token'') \<and> present (getItem w ''admin_user''))
   \<Longrightarrow> restore_session parse w = setLoading False w"
  by (auto simp: restore_session_def Let_def)

lemma restore_settled:
  assumes "localStorage w ''admin_token'' = None" and "\<not> loading w"
  shows "(restore_session parse ^^ n) w = w"
proof (induction n)
  case 0
  show ?case by simp
next
  case (Suc n)
  have "restore_session parse w = w"
    using assms by (simp add: restore_absent getItem_def setLoading_def)
  with Suc show ?case by simp
qed

lemma response_error_401:
  "is_401 e \<Longrightarrow> response_error_interceptor e w = (cleared w, e)"
  by (simp add: response_error_interceptor_def assign_href_def removeItem_def cleared_def)

lemma response_error_other:
  "\<not> is_401 e \<Longrightarrow> response_error_interceptor e w = (w, e)"
  by (simp add: response_error_interceptor_def)

lemma cleared_simps [simp]:
  "localStorage (cleared w) = (localStorage w)(''admin_token'' := None, ''admin_user'' := None)"
  "href (cleared w) = ''/login''"
  "admin (cleared w) = admin w"
  "loading (cleared w) = loading w"
  "trace (cleared w) = trace w @ [RemoveItem ''admin_token'', RemoveItem ''admin_user'',
                                  Redirect ''/login'']"
  by (simp_all add: cleared_def)

lemma intercept_all_401:
  "\<forall>e\<in>set es. is_401 e \<Longrightarrow>
     count_list (trace (intercept_all es w)) (Redirect ''/login'')
       = count_list (trace w) (Redirect ''/login'') + length es
   \<and> count_list (trace (intercept_all es w)) (RemoveItem ''admin_token'')
       = count_list (trace w) (RemoveItem ''admin_token'') + length es
   \<and> count_list (trace (intercept_all es w)) (RemoveItem ''admin_user'')
       = count_list (trace w) (RemoveItem ''admin_user'') + length es
   \<and> (es \<noteq> [] \<longrightarrow> localStorage (intercept_all es w) ''admin_token'' = None
         \<and> localStorage (intercept_all es w) ''admin_user'' = None
         \<and> href (intercept_all es w) = ''/login'')"
proof (induction es arbitrary: w)
  case Nil
  show ?case by simp
next
  case (Cons e es)
  have e: "is_401 e" and es: "\<forall>e\<in>set es. is_401 e" using Cons.prems by simp_all
  note ih = Cons.IH [OF es, of "cleared w"]
  show ?case
  proof (cases "es = []")
    case True
    then show ?thesis using e by (simp add: response_error_401)
  next
    case False
    with ih show ?thesis using e by (simp add: response_error_401)
  qed
qed

lemma axios_fulfilled:
  "backend (request_interceptor w c) = Responded r \<Longrightarrow> 200 \<le> status r \<Longrightarrow> status r < 300
   \<Longrightarrow> adminAxios_request backend c w = (w, Inr r)"
  by (simp add: adminAxios_request_def)

lemma axios_rejected:
  "backend (request_interceptor w c) = Responded r \<Longrightarrow> \<not> (200 \<le> status r \<and> status r < 300)
   \<Longrightarrow> adminAxios_request backend c w =
       (if status r = 401 then cleared w else w, Inl (AxiosError (Some r)))"
  by (simp add: adminAxios_request_def response_error_interceptor_def cleared_def
      assign_href_def removeItem_def)

lemma axios_no_response:
  "backend (request_interceptor w c) = NoResponse
   \<Longrightarrow> adminAxios_request backend c w = (w, Inl (AxiosError None))"
  by (simp add: adminAxios_request_def response_error_interceptor_def)

lemma login_not_admin:
  assumes "backend (request_interceptor w (login_request email password)) = Responded r"
    and "200 \<le> status r" and "status r < 300"
    and "opt_member (opt_member (body r) ''user'') ''role'' \<noteq> JStr ''ADMIN''"
  shows "login stringify backend email password w =
     (w, LoginFailure (if nullish (body r) \<or> nullish (opt_member (body r) ''user'')
                       then JStr ''Login failed''
                       else JStr ''Access denied. Admin privileges required.''))"
proof -
  have ax: "adminAxios_request backend (login_request email password) w = (w, Inr r)"
    using assms(1-3) by (rule axios_fulfilled)
  show ?thesis
  proof (cases "body r")
    case (JObj fs)
    show ?thesis
    proof (cases "own_prop fs ''user''")
      case u: (JObj us)
      with JObj assms(4) show ?thesis by (simp add: login_def ax)
    qed (simp_all add: login_def ax JObj)
  qed (simp_all add: login_def ax)
qed

lemma login_admin:
  assumes "backend (request_interceptor w (login_request email password)) = Responded r"
    and "200 \<le> status r" and "status r < 300"
    and "opt_member (opt_member (body r) ''user'') ''role'' = JStr ''ADMIN''"
  shows "login stringify backend email password w =
     (setAdmin (opt_member (body r) ''user'')
        (setItem ''admin_user'' (stringify (opt_member (body r) ''user''))
           (setItem ''admin_token'' (to_string (opt_member (body r) ''token'')) w)),
      LoginSuccess)"
proof -
  have ax: "adminAxios_request backend (login_request email password) w = (w, Inr r)"
    using assms(1-3) by (rule axios_fulfilled)
  obtain fs where b: "body r = JObj fs" using assms(4) by (cases "body r") simp_all
  obtain us where u: "own_prop fs ''user'' = JObj us"
    using assms(4) b by (cases "own_prop fs ''user''") simp_all
  show ?thesis using assms(4) by (simp add: login_def ax b u Let_def)
qed

lemma login_rejected:
  assumes "backend (request_interceptor w (login_request email password)) = Responded r"
    and "\<not> (200 \<le> status r \<and> status r < 300)"
  shows "login stringify backend email password w =
     (if status r = 401 then cleared w else w,
      LoginFailure (if truthy (opt_member (body r) ''error'') then opt_member (body r) ''error''
                    else JStr ''Login failed''))"
  using assms axios_rejected [of backend w "login_request email password" r]
  by (simp add: login_def Let_def)

lemma login_no_response:
  assumes "backend (request_interceptor w (login_request email password)) = NoResponse"
  shows "login stringify backend email password w = (w, LoginFailure (JStr ''Login failed''))"
  using assms axios_no_response [of backend w "login_request email password"]
  by (simp add: login_def)

lemma storage_calls_same [simp]: "trace w' = trace w \<Longrightarrow> storage_calls w w' = []"
  by (simp add: storage_calls_def)

lemma storage_calls_append [simp]:
  "trace w' = trace w @ es \<Longrightarrow> storage_calls w w' = filter is_storage_effect es"
  by (simp add: storage_calls_def)

lemma run_op_storage:
  "(trace (run_op env op w) = trace w \<and> localStorage (run_op env op w) = localStorage w)
   \<or> (\<exists>t u. trace (run_op env op w)
               = trace w @ [SetItem ''admin_token'' t, SetItem ''admin_user'' u]
        \<and> localStorage (run_op env op w)
               = (localStorage w)(''admin_token'' \<mapsto> t, ''admin_user'' \<mapsto> u))
   \<or> (\<exists>rs. filter is_storage_effect rs = []
        \<and> trace (run_op env op w)
               = trace w @ [RemoveItem ''admin_token'', RemoveItem ''admin_user''] @ rs
        \<and> localStorage (run_op env op w)
               = (localStorage w)(''admin_token'' := None, ''admin_user'' := None))"
proof (cases op)
  case Restore
  show ?thesis
  proof (cases "present (getItem w ''admin_token'') \<and> present (getItem w ''admin_user'')")
    case True
    then show ?thesis
      by (cases "env_parse env (case getItem w ''admin_user'' of Some s \<Rightarrow> s | None \<Rightarrow> [])")
        (simp_all add: Restore restore_session_def Let_def setLoading_def setAdmin_def
          removeItem_def)
  next
    case False
    then show ?thesis by (simp add: Restore restore_absent setLoading_def)
  qed
next
  case (Login email password)
  let ?c = "login_request email password"
  show ?thesis
  proof (cases "env_server env (request_interceptor w ?c)")
    case (Responded r)
    show ?thesis
    proof (cases "200 \<le> status r \<and> status r < 300")
      case ok: True
      show ?thesis
      proof (cases "opt_member (opt_member (body r) ''user'') ''role'' = JStr ''ADMIN''")
        case True
        with Responded ok show ?thesis
          using login_admin [where backend = "env_server env" and w = w and email = email
              and password = password and r = r and stringify = "env_stringify env"]
          by (simp add: Login setAdmin_def setItem_def)
      next
        case False
        with Responded ok show ?thesis
          using login_not_admin [where backend = "env_server env" and w = w and email = email
              and password = password and r = r and stringify = "env_stringify env"]
          by (simp add: Login)
      qed
    next
      case False
      with Responded show ?thesis
        using login_rejected [where backend = "env_server env" and w = w and email = email
            and password = password and r = r and stringify = "env_stringify env"]
        by (simp add: Login)
    qed
  next
    case NoResponse
    then show ?thesis
      using login_no_response [where backend = "env_server env" and w = w and email = email
          and password = password and stringify = "env_stringify env"]
      by (simp add: Login)
  qed
next
  case Logout
  then show ?thesis by (simp add: logout_def setAdmin_def removeItem_def)
next
  case (Request c)
  show ?thesis
  proof (cases "env_server env (request_interceptor w c)")
    case (Responded r)
    then show ?thesis
      using axios_fulfilled [of "env_server env" w c r] axios_rejected [of "env_server env" w c r]
      by (cases "200 \<le> status r \<and> status r < 300") (simp_all add: Request)
  next
    case NoResponse
    then show ?thesis using axios_no_response [of "env_server env" w c] by (simp add: Request)
  qed
qed

lemma run_op_paired:
  assumes "localStorage w ''admin_token'' = None \<longleftrightarrow> localStorage w ''admin_user'' = None"
  shows "localStorage (run_op env op w) ''admin_token'' = None
     \<longleftrightarrow> localStorage (run_op env op w) ''admin_user'' = None"
  using run_op_storage [of env op w] assms by auto

lemma run_ops_paired:
  "(localStorage w ''admin_token'' = None \<longleftrightarrow> localStorage w ''admin_user'' = None)
   \<Longrightarrow> (localStorage (run_ops env ops w) ''admin_token'' = None
        \<longleftrightarrow> localStorage (run_ops env ops w) ''admin_user'' = None)"
proof (induction ops arbitrary: w)
  case Nil
  then show ?case by simp
next
  case (Cons op ops)
  have "localStorage (run_op env op w) ''admin_token'' = None
     \<longleftrightarrow> localStorage (run_op env op w) ''admin_user'' = None"
    using Cons.prems by (rule run_op_paired)
  then show ?case using Cons.IH [of "run_op env op w"] by simp
qed

lemma map_of_set_prop: "map_of (set_prop fs k v) = (map_of fs)(k \<mapsto> v)"
  by (induction fs) (auto simp: fun_eq_iff)

lemma own_prop_set_prop:
  "own_prop (set_prop fs k v) k' = (if k' = k then v else own_prop fs k')"
  by (simp add: own_prop_def map_of_set_prop)

lemma set_prop_same: "map_of fs k = Some v \<Longrightarrow> set_prop fs k v = fs"
  by (induction fs) (auto split: if_splits)

lemma map_throwing_map:
  "\<forall>x\<in>set xs. f x = Inr (g x) \<Longrightarrow> map_throwing f xs = Inr (map g xs)"
  by (induction xs) simp_all

lemma normalize_color_raw:
  "raw_color c \<Longrightarrow> normalize_color c = Inr (color_name c) \<and> is_string (color_name c)"
  by (cases c) (simp_all add: normalize_color_def)

lemma normalize_color_string: "is_string c \<Longrightarrow> normalize_color c = Inr c"
  by (simp add: normalize_color_def)

lemma normalize_size_cases:
  "(is_string s \<longrightarrow> normalize_size s = JObj [(''value'', s)])
   \<and> (\<not> is_string s \<longrightarrow> normalize_size s = s)"
  by (simp add: normalize_size_def)

lemma normalize_size_raw: "raw_size s \<Longrightarrow> is_value_object (normalize_size s)"
  by (cases s) (simp_all add: normalize_size_def)

lemma normalize_size_idem: "normalize_size (normalize_size s) = normalize_size s"
  by (cases s) (simp_all add: normalize_size_def)

lemma normalize_size_value_object: "is_value_object s \<Longrightarrow> normalize_size s = s"
  by (cases s) (simp_all add: normalize_size_def)

lemma normalize_colors_raw:
  "list_all raw_color cs \<Longrightarrow> normalize_colors (JArr cs) = Inr (JArr (map color_name cs))"
  using map_throwing_map [of cs normalize_color color_name]
  by (simp add: normalize_colors_def list_all_iff normalize_color_raw)

lemma normalize_colors_strings:
  "list_all is_string cs \<Longrightarrow> normalize_colors (JArr cs) = Inr (JArr cs)"
  using map_throwing_map [of cs normalize_color "\<lambda>c. c"]
  by (simp add: normalize_colors_def list_all_iff normalize_color_string)

lemma normalize_sizes_array:
  "normalize_sizes (JArr ss) = Inr (JArr (map normalize_size ss))"
  using map_throwing_map [of ss "\<lambda>s. Inr (normalize_size s)" normalize_size]
  by (simp add: normalize_sizes_def)

lemma normalize_product_object:
  assumes "normalize_colors (own_prop fs ''colors'') = Inr cs"
    and "normalize_sizes (own_prop fs ''sizes'') = Inr ss"
  shows "normalize_product (JObj fs) =
     Inr (JObj (set_prop (set_prop (set_prop fs ''image'' (own_prop fs ''main_image''))
                  ''colors'' cs) ''sizes'' ss))"
  using assms by (simp add: normalize_product_def)

lemma normalize_again:
  assumes "map_of gs ''image'' = Some (own_prop gs ''main_image'')"
    and "own_prop gs ''colors'' = JArr cs" and "list_all is_string cs"
    and "own_prop gs ''sizes'' = JArr ss" and "map normalize_size ss = ss"
  shows "normalize_product (JObj gs) = Inr (JObj gs)"
proof -
  have c: "map_of gs ''colors'' = Some (JArr cs)"
    using assms(2) by (simp add: own_prop_def split: option.splits)
  have s: "map_of gs ''sizes'' = Some (JArr ss)"
    using assms(4) by (simp add: own_prop_def split: option.splits)
  have "normalize_product (JObj gs) =
     Inr (JObj (set_prop (set_prop (set_prop gs ''image'' (own_prop gs ''main_image''))
                  ''colors'' (JArr cs)) ''sizes'' (JArr ss)))"
    using assms by (intro normalize_product_object)
      (simp_all add: normalize_colors_strings normalize_sizes_array)
  then show ?thesis using assms(1) c s by (simp add: set_prop_same)
qed

lemma getAll_products_array:
  assumes "own_prop ds ''products'' = JArr ps" and "\<forall>p\<in>set ps. normalize_product p = Inr (f p)"
  shows "getAll_products (JObj ds) = Inr (JArr (map f ps))"
  using assms map_throwing_map [of ps normalize_product f] by (simp add: getAll_products_def)

lemma normalize_colors_shape:
  "raw_color_array c \<Longrightarrow> \<exists>cs. normalize_colors c = Inr (JArr cs) \<and> list_all is_string cs"
proof (cases c)
  case (JArr xs)
  assume "raw_color_array c"
  with JArr have "list_all raw_color xs" by simp
  then have "normalize_colors (JArr xs) = Inr (JArr (map color_name xs))
      \<and> list_all is_string (map color_name xs)"
    by (simp add: normalize_colors_raw list_all_iff normalize_color_raw)
  with JArr show ?thesis by blast
qed (simp_all add: normalize_colors_def)

lemma normalize_sizes_shape:
  "array_or_absent s \<Longrightarrow>
     \<exists>ss. normalize_sizes s = Inr (JArr ss) \<and> map normalize_size ss = ss
        \<and> (raw_size_array s \<longrightarrow> list_all is_value_object ss)"
proof (cases s)
  case (JArr xs)
  have "normalize_sizes (JArr xs) = Inr (JArr (map normalize_size xs))
      \<and> map normalize_size (map normalize_size xs) = map normalize_size xs
      \<and> (list_all raw_size xs \<longrightarrow> list_all is_value_object (map normalize_size xs))"
    by (simp add: normalize_sizes_array normalize_size_idem list_all_iff normalize_size_raw)
  with JArr show ?thesis by auto
qed (simp_all add: normalize_sizes_def)

lemma normalize_raw_product:
  assumes "raw_product p"
  shows "\<exists>q. normalize_product p = Inr q \<and> normalize_product q = Inr q
     \<and> (raw_size_array (opt_member p ''sizes'') \<longrightarrow> normalized_product q)"
proof -
  obtain fs where p: "p = JObj fs" using assms by (cases p) simp_all
  obtain cs where cs: "normalize_colors (own_prop fs ''colors'') = Inr (JArr cs)"
      "list_all is_string cs"
    using assms p normalize_colors_shape [of "own_prop fs ''colors''"] by auto
  obtain ss where ss: "normalize_sizes (own_prop fs ''sizes'') = Inr (JArr ss)"
      "map normalize_size ss = ss"
      "raw_size_array (own_prop fs ''sizes'') \<longrightarrow> list_all is_value_object ss"
    using assms p normalize_sizes_shape [of "own_prop fs ''sizes''"] by auto
  let ?gs = "set_prop (set_prop (set_prop fs ''image'' (own_prop fs ''main_image''))
                  ''colors'' (JArr cs)) ''sizes'' (JArr ss)"
  have n: "normalize_product p = Inr (JObj ?gs)"
    unfolding p using cs(1) ss(1) by (rule normalize_product_object)
  have img: "map_of ?gs ''image'' = Some (own_prop ?gs ''main_image'')"
    by (simp add: map_of_set_prop own_prop_set_prop)
  have again: "normalize_product (JObj ?gs) = Inr (JObj ?gs)"
    using img _ cs(2) _ ss(2) by (rule normalize_again) (simp_all add: own_prop_set_prop)
  have "raw_size_array (opt_member p ''sizes'') \<longrightarrow> normalized_product (JObj ?gs)"
    using img cs(2) ss(3) by (simp add: p own_prop_set_prop)
  with n again show ?thesis by blast
qed

text \<open>
  The enumeration of colors computes what the enumeration of sizes computes: the \<open>Map\<close>
  keyed by the raw element has the members of the \<open>Set\<close> of raw elements as its keys.
  When every element is a primitive value, each distinct value is listed once.
\<close>

lemma same_value_zero_eq: "same_value_zero a c \<Longrightarrow> a = c"
  by (cases c) simp_all

lemma same_value_zero_primitive: "primitive c \<Longrightarrow> same_value_zero a c = (a = c)"
  by (cases c) simp_all

lemma Map_set_color_entry:
  "Map_set (map color_entry acc) c (snd (color_entry c)) = map color_entry (Set_add acc c)"
proof (induction acc)
  case Nil
  show ?case by (simp add: Set_add_def color_entry_def)
next
  case (Cons a acc)
  show ?case
  proof (cases "same_value_zero a c")
    case True
    then have "a = c" by (rule same_value_zero_eq)
    with True show ?thesis by (simp add: Set_add_def color_entry_def)
  next
    case False
    with Cons show ?thesis by (simp add: Set_add_def color_entry_def)
  qed
qed

lemma foldl_Map_set_color_entry:
  "foldl (\<lambda>m (k, v). Map_set m k v) (map color_entry acc) (map color_entry vs)
     = map color_entry (foldl Set_add acc vs)"
proof (induction vs arbitrary: acc)
  case Nil
  show ?case by simp
next
  case (Cons c vs)
  have "Map_set (map color_entry acc) (fst (color_entry c)) (snd (color_entry c))
      = map color_entry (Set_add acc c)"
    using Map_set_color_entry [of acc c] by (simp add: color_entry_def)
  then show ?case using Cons [of "Set_add acc c"] by (simp add: case_prod_beta)
qed

lemma unique_colors_as_set:
  "Map_values (new_Map (map color_entry vs))
     = map (\<lambda>c. JObj [(''id'', c), (''value'', c)]) (new_Set vs)"
  using foldl_Map_set_color_entry [of "[]" vs]
  by (simp add: Map_values_def new_Map_def new_Set_def color_entry_def comp_def)

lemma foldl_Set_add_primitive:
  "\<forall>v\<in>set vs. primitive v \<Longrightarrow> distinct acc \<Longrightarrow>
     distinct (foldl Set_add acc vs) \<and> set (foldl Set_add acc vs) = set acc \<union> set vs"
proof (induction vs arbitrary: acc)
  case Nil
  then show ?case by simp
next
  case (Cons v vs)
  have v: "primitive v" using Cons.prems(1) by simp
  have add: "Set_add acc v = (if v \<in> set acc then acc else acc @ [v])"
    using v by (auto simp: Set_add_def list_ex_iff same_value_zero_primitive)
  have "distinct (Set_add acc v)" using Cons.prems(2) by (simp add: add)
  moreover have "\<forall>v\<in>set vs. primitive v" using Cons.prems(1) by simp
  ultimately have "distinct (foldl Set_add (Set_add acc v) vs)
      \<and> set (foldl Set_add (Set_add acc v) vs) = set (Set_add acc v) \<union> set vs"
    using Cons.IH by blast
  then show ?case by (auto simp: add)
qed

lemma new_Set_primitive:
  "\<forall>v\<in>set vs. primitive v \<Longrightarrow> distinct (new_Set vs) \<and> set (new_Set vs) = set vs"
  using foldl_Set_add_primitive [of vs "[]"] by (simp add: new_Set_def)

lemma unique_colors_primitive:
  assumes "flatten_products ''colors'' d = Inr vs" and "\<forall>v\<in>set vs. primitive v"
  shows "\<exists>us. uniqueColors d = Inr (map (\<lambda>c. JObj [(''id'', c), (''value'', c)]) us)
           \<and> distinct us \<and> set us = set vs"
  using assms new_Set_primitive [of vs]
  by (intro exI [of _ "new_Set vs"]) (simp add: uniqueColors_def unique_colors_as_set)

lemma sizes_list_primitive:
  assumes "flatten_products ''sizes'' d = Inr vs" and "\<forall>v\<in>set vs. primitive v"
  shows "\<exists>us. sizes_list d = Inr (map (\<lambda>c. JObj [(''id'', c), (''value'', c)]) us)
           \<and> distinct us \<and> set us = set vs"
  using assms new_Set_primitive [of vs]
  by (intro exI [of _ "new_Set vs"]) (simp add: sizes_list_def)

section \<open>The route guard\<close>

text \<open>
  C8. The route guard renders only the pending indicator while the auth controller is
  still \<open>Unknown\<close> (loading). Once resolved, it renders the protected content exactly when
  the state is \<open>Authenticated\<close>, and otherwise redirects to \<open>/login\<close> with \<open>replace\<close> set.
  Protected content is never rendered while loading or unauthenticated.
\<close>

theorem route_guard:
  "(auth_state_of w = Unknown \<longrightarrow> ProtectedRoute w = Spinner)
   \<and> (auth_state_of w = Unauthenticated \<longrightarrow> ProtectedRoute w = Navigate ''/login'' True)
   \<and> (auth_state_of w = Authenticated u \<longrightarrow> ProtectedRoute w = Outlet)
   \<and> (ProtectedRoute w = Outlet \<longleftrightarrow> auth_state_of w = Authenticated (admin w))
   \<and> (loading w \<or> \<not> isAuthenticated w \<longrightarrow> ProtectedRoute w \<noteq> Outlet)"
  by (simp add: ProtectedRoute_def auth_state_of_def)

theorem route_guard_witness:
  "auth_state_of (initial_world Map.empty) = Unknown
   \<and> ProtectedRoute (initial_world Map.empty) = Spinner
   \<and> auth_state_of (setLoading False (initial_world Map.empty)) = Unauthenticated
   \<and> ProtectedRoute (setLoading False (initial_world Map.empty)) = Navigate ''/login'' True
   \<and> auth_state_of (setLoading False (setAdmin (JObj [(''role'', JStr ''ADMIN'')])
         (initial_world Map.empty))) = Authenticated (JObj [(''role'', JStr ''ADMIN'')])
   \<and> ProtectedRoute (setLoading False (setAdmin (JObj [(''role'', JStr ''ADMIN'')])
         (initial_world Map.empty))) = Outlet"
  using route_guard [of "initial_world Map.empty"]
    route_guard [of "setLoading False (initial_world Map.empty)"]
    route_guard [of "setLoading False (setAdmin (JObj [(''role'', JStr ''ADMIN'')])
         (initial_world Map.empty))" "JObj [(''role'', JStr ''ADMIN'')]"]
  by (simp add: auth_state_of_def isAuthenticated_def setLoading_def setAdmin_def)

section \<open>The request interceptor\<close>

text \<open>
  C7. The request interceptor attaches \<open>Authorization: Bearer <token>\<close> exactly when a
  token is present under \<open>admin_token\<close> (present as JavaScript tests it: \<open>getItem\<close>
  returns a non-empty string). Without a token the request is returned unchanged, so a
  request that carried no \<open>Authorization\<close> header is sent without one. In both cases the
  method, the URL, the payload and every other header are untouched.
\<close>

theorem request_interceptor_bearer:
  "(getItem w ''admin_token'' = Some t \<and> t \<noteq> [] \<longrightarrow>
      request_interceptor w c = c\<lparr>headers := (headers c)(''Authorization'' \<mapsto> ''Bearer '' @ t)\<rparr>)
   \<and> (\<not> present (getItem w ''admin_token'') \<longrightarrow> request_interceptor w c = c)
   \<and> (headers c ''Authorization'' = None \<longrightarrow>
        (headers (request_interceptor w c) ''Authorization'' \<noteq> None
           \<longleftrightarrow> present (getItem w ''admin_token'')))
   \<and> http_method (request_interceptor w c) = http_method c
   \<and> url (request_interceptor w c) = url c
   \<and> payload (request_interceptor w c) = payload c
   \<and> (\<forall>h. h \<noteq> ''Authorization'' \<longrightarrow> headers (request_interceptor w c) h = headers c h)"
  by (cases "getItem w ''admin_token''") (auto simp: request_interceptor_def)

theorem request_interceptor_bearer_witness:
  "request_interceptor (initial_world [''admin_token'' \<mapsto> ''t1'']) (login_request ''a@x.com'' ''pw'')
     = (login_request ''a@x.com'' ''pw'')\<lparr>headers := [''Authorization'' \<mapsto> ''Bearer t1'']\<rparr>
   \<and> request_interceptor (initial_world Map.empty) (login_request ''a@x.com'' ''pw'')
     = login_request ''a@x.com'' ''pw''
   \<and> headers (request_interceptor (initial_world Map.empty) (login_request ''a@x.com'' ''pw''))
        ''Authorization'' = None"
  using request_interceptor_bearer [of "initial_world [''admin_token'' \<mapsto> ''t1'']" "''t1''"
      "login_request ''a@x.com'' ''pw''"]
    request_interceptor_bearer [of "initial_world Map.empty" "''t1''"
      "login_request ''a@x.com'' ''pw''"]
  by (simp add: getItem_def login_request_def)

section \<open>The response interceptor\<close>

text \<open>
  C4, as the code has it. Each response with status 401 makes the interceptor remove
  \<open>admin_token\<close> and \<open>admin_user\<close> once and assign \<open>/login\<close> to the location once, before
  the request rejects with the same error. A response with any other status, and a
  request without a response, leave the state as it was. The handler keeps no record of
  having run: a batch of \<open>n\<close> responses with status 401 performs the two removals and the
  redirect \<open>n\<close> times, and ends with both entries absent and the location at \<open>/login\<close>.
\<close>

theorem unauthorized_response_handling:
  "(backend (request_interceptor w c) = Responded r \<and> status r = 401 \<longrightarrow>
      adminAxios_request backend c w = (cleared w, Inl (AxiosError (Some r)))
      \<and> localStorage (cleared w) ''admin_token'' = None
      \<and> localStorage (cleared w) ''admin_user'' = None
      \<and> href (cleared w) = ''/login''
      \<and> trace (cleared w) = trace w @ [RemoveItem ''admin_token'', RemoveItem ''admin_user'',
                                        Redirect ''/login''])
   \<and> (backend (request_interceptor w c) = Responded r \<and> status r \<noteq> 401 \<longrightarrow>
        fst (adminAxios_request backend c w) = w)
   \<and> (backend (request_interceptor w c) = NoResponse \<longrightarrow>
        fst (adminAxios_request backend c w) = w)
   \<and> ((\<forall>e\<in>set es. is_401 e) \<longrightarrow>
        count_list (trace (intercept_all es w)) (Redirect ''/login'')
          = count_list (trace w) (Redirect ''/login'') + length es
        \<and> count_list (trace (intercept_all es w)) (RemoveItem ''admin_token'')
          = count_list (trace w) (RemoveItem ''admin_token'') + length es
        \<and> count_list (trace (intercept_all es w)) (RemoveItem ''admin_user'')
          = count_list (trace w) (RemoveItem ''admin_user'') + length es
        \<and> (es \<noteq> [] \<longrightarrow> localStorage (intercept_all es w) ''admin_token'' = None
              \<and> localStorage (intercept_all es w) ''admin_user'' = None
              \<and> href (intercept_all es w) = ''/login''))"
proof -
  have a: "backend (request_interceptor w c) = Responded r \<and> status r = 401 \<longrightarrow>
      adminAxios_request backend c w = (cleared w, Inl (AxiosError (Some r)))"
    by (simp add: adminAxios_request_def response_error_401)
  have b: "backend (request_interceptor w c) = Responded r \<and> status r \<noteq> 401 \<longrightarrow>
        fst (adminAxios_request backend c w) = w"
    by (simp add: adminAxios_request_def response_error_other)
  have c: "backend (request_interceptor w c) = NoResponse \<longrightarrow>
        fst (adminAxios_request backend c w) = w"
    by (simp add: adminAxios_request_def response_error_other)
  show ?thesis using a b c intercept_all_401 [of es w] by simp
qed

theorem unauthorized_response_handling_witness:
  "adminAxios_request (\<lambda>c. Responded \<lparr>status = 401, body = JNull\<rparr>)
      (login_request ''a@x.com'' ''pw'')
      (initial_world [''admin_token'' \<mapsto> ''t1'', ''admin_user'' \<mapsto> ''{}''])
    = (cleared (initial_world [''admin_token'' \<mapsto> ''t1'', ''admin_user'' \<mapsto> ''{}'']),
       Inl (AxiosError (Some \<lparr>status = 401, body = JNull\<rparr>)))
   \<and> trace (cleared (initial_world [''admin_token'' \<mapsto> ''t1'', ''admin_user'' \<mapsto> ''{}'']))
     = [RemoveItem ''admin_token'', RemoveItem ''admin_user'', Redirect ''/login'']
   \<and> fst (adminAxios_request (\<lambda>c. Responded \<lparr>status = 500, body = JNull\<rparr>)
      (login_request ''a@x.com'' ''pw'')
      (initial_world [''admin_token'' \<mapsto> ''t1'', ''admin_user'' \<mapsto> ''{}'']))
     = initial_world [''admin_token'' \<mapsto> ''t1'', ''admin_user'' \<mapsto> ''{}'']
   \<and> fst (adminAxios_request (\<lambda>c. NoResponse)
      (login_request ''a@x.com'' ''pw'')
      (initial_world [''admin_token'' \<mapsto> ''t1'', ''admin_user'' \<mapsto> ''{}'']))
     = initial_world [''admin_token'' \<mapsto> ''t1'', ''admin_user'' \<mapsto> ''{}'']
   \<and> count_list (trace (intercept_all
        [AxiosError (Some \<lparr>status = 401, body = JNull\<rparr>),
         AxiosError (Some \<lparr>status = 401, body = JNull\<rparr>),
         AxiosError (Some \<lparr>status = 401, body = JNull\<rparr>)]
        (initial_world [''admin_token'' \<mapsto> ''t1'', ''admin_user'' \<mapsto> ''{}''])))
        (Redirect ''/login'') = 3"
  using unauthorized_response_handling [where backend = "\<lambda>c. Responded \<lparr>status = 401, body = JNull\<rparr>"
      and w = "initial_world [''admin_token'' \<mapsto> ''t1'', ''admin_user'' \<mapsto> ''{}'']"
      and c = "login_request ''a@x.com'' ''pw''" and r = "\<lparr>status = 401, body = JNull\<rparr>"
      and es = "[AxiosError (Some \<lparr>status = 401, body = JNull\<rparr>),
         AxiosError (Some \<lparr>status = 401, body = JNull\<rparr>),
         AxiosError (Some \<lparr>status = 401, body = JNull\<rparr>)]"]
    unauthorized_response_handling [where backend = "\<lambda>c. Responded \<lparr>status = 500, body = JNull\<rparr>"
      and w = "initial_world [''admin_token'' \<mapsto> ''t1'', ''admin_user'' \<mapsto> ''{}'']"
      and c = "login_request ''a@x.com'' ''pw''" and r = "\<lparr>status = 500, body = JNull\<rparr>"
      and es = "[]"]
    unauthorized_response_handling [where backend = "\<lambda>c. NoResponse"
      and w = "initial_world [''admin_token'' \<mapsto> ''t1'', ''admin_user'' \<mapsto> ''{}'']"
      and c = "login_request ''a@x.com'' ''pw''" and r = "\<lparr>status = 500, body = JNull\<rparr>"
      and es = "[]"]
  by simp

text \<open>
  Two responses with status 401 in one batch: the redirect is performed twice and each
  entry is removed twice, not once.
\<close>

theorem one_redirect_per_batch_counterexample:
  "count_list (trace (intercept_all
        [AxiosError (Some \<lparr>status = 401, body = JNull\<rparr>),
         AxiosError (Some \<lparr>status = 401, body = JNull\<rparr>)]
        (initial_world [''admin_token'' \<mapsto> ''t1'', ''admin_user'' \<mapsto> ''{}''])))
        (Redirect ''/login'') = 2
   \<and> count_list (trace (intercept_all
        [AxiosError (Some \<lparr>status = 401, body = JNull\<rparr>),
         AxiosError (Some \<lparr>status = 401, body = JNull\<rparr>)]
        (initial_world [''admin_token'' \<mapsto> ''t1'', ''admin_user'' \<mapsto> ''{}''])))
        (RemoveItem ''admin_token'') = 2
   \<and> count_list (trace (intercept_all
        [AxiosError (Some \<lparr>status = 401, body = JNull\<rparr>),
         AxiosError (Some \<lparr>status = 401, body = JNull\<rparr>)]
        (initial_world [''admin_token'' \<mapsto> ''t1'', ''admin_user'' \<mapsto> ''{}''])))
        (RemoveItem ''admin_user'') = 2"
  by (simp add: response_error_interceptor_def assign_href_def removeItem_def)

section \<open>Session restore\<close>

text \<open>
  C6. When both entries are stored and \<open>JSON.parse\<close> of the user record throws, the
  restore effect does not throw: it removes \<open>admin_token\<close> and \<open>admin_user\<close> and leaves the
  controller \<open>Unauthenticated\<close>. Nothing of the session remains, so running the restore
  again any number of times (with any parser) changes nothing: the state stays
  \<open>Unauthenticated\<close> and the store stays without both entries. The parse is attempted only
  when both entries are present and non-empty.
\<close>

theorem corrupt_session_recovery:
  assumes "store ''admin_token'' = Some t" and "t \<noteq> []"
    and "store ''admin_user'' = Some u" and "u \<noteq> []"
    and "parse u = None"
  shows "auth_state_of (restore_session parse (initial_world store)) = Unauthenticated
    \<and> localStorage (restore_session parse (initial_world store))
        = store(''admin_token'' := None, ''admin_user'' := None)
    \<and> trace (restore_session parse (initial_world store))
        = [RemoveItem ''admin_token'', RemoveItem ''admin_user'']
    \<and> (restore_session parse' ^^ n) (restore_session parse (initial_world store))
        = restore_session parse (initial_world store)"
proof -
  let ?w = "restore_session parse (initial_world store)"
  have w: "?w = setLoading False
      (removeItem ''admin_user'' (removeItem ''admin_token'' (initial_world store)))"
    using assms by (simp add: restore_session_def Let_def getItem_def)
  have st: "localStorage ?w = store(''admin_token'' := None, ''admin_user'' := None)"
    by (simp add: w setLoading_def removeItem_def)
  have "localStorage ?w ''admin_token'' = None" by (simp add: st)
  moreover have "\<not> loading ?w" by (simp add: w setLoading_def)
  ultimately have "(restore_session parse' ^^ n) ?w = ?w" by (rule restore_settled)
  moreover have "auth_state_of ?w = Unauthenticated"
    by (simp add: w auth_state_of_def isAuthenticated_def setLoading_def removeItem_def)
  moreover have "trace ?w = [RemoveItem ''admin_token'', RemoveItem ''admin_user'']"
    by (simp add: w setLoading_def removeItem_def)
  ultimately show ?thesis using st by simp
qed

theorem corrupt_session_recovery_witness:
  "auth_state_of (restore_session (\<lambda>s. None)
      (initial_world [''admin_token'' \<mapsto> ''t1'', ''admin_user'' \<mapsto> ''{bad''])) = Unauthenticated
   \<and> localStorage (restore_session (\<lambda>s. None)
      (initial_world [''admin_token'' \<mapsto> ''t1'', ''admin_user'' \<mapsto> ''{bad''])) ''admin_token'' = None
   \<and> localStorage (restore_session (\<lambda>s. None)
      (initial_world [''admin_token'' \<mapsto> ''t1'', ''admin_user'' \<mapsto> ''{bad''])) ''admin_user'' = None
   \<and> restore_session (\<lambda>s. None) (restore_session (\<lambda>s. None)
        (initial_world [''admin_token'' \<mapsto> ''t1'', ''admin_user'' \<mapsto> ''{bad'']))
      = restore_session (\<lambda>s. None)
        (initial_world [''admin_token'' \<mapsto> ''t1'', ''admin_user'' \<mapsto> ''{bad''])"
  using corrupt_session_recovery [where store = "[''admin_token'' \<mapsto> ''t1'', ''admin_user'' \<mapsto> ''{bad'']"
      and t = "''t1''" and u = "''{bad''" and parse = "\<lambda>s. None" and parse' = "\<lambda>s. None"
      and n = 1]
  by simp

text \<open>
  C10. When exactly one of the two entries is stored at start, the restore effect leaves
  the controller \<open>Unauthenticated\<close> and makes no storage call: the residual entry stays.
  A residual (non-empty) token is then still attached as \<open>Bearer\<close> header by the request
  interceptor to any request.
\<close>

theorem restore_keeps_residual_entry:
  "(store ''admin_token'' = Some t \<and> store ''admin_user'' = None \<longrightarrow>
      auth_state_of (restore_session parse (initial_world store)) = Unauthenticated
      \<and> localStorage (restore_session parse (initial_world store)) = store
      \<and> trace (restore_session parse (initial_world store)) = []
      \<and> (t \<noteq> [] \<longrightarrow>
           headers (request_interceptor (restore_session parse (initial_world store)) c)
             ''Authorization'' = Some (''Bearer '' @ t)))
   \<and> (store ''admin_token'' = None \<and> store ''admin_user'' = Some u \<longrightarrow>
      auth_state_of (restore_session parse (initial_world store)) = Unauthenticated
      \<and> localStorage (restore_session parse (initial_world store)) = store
      \<and> trace (restore_session parse (initial_world store)) = [])"
  by (simp add: restore_absent getItem_def setLoading_def auth_state_of_def
      isAuthenticated_def request_interceptor_def)

theorem restore_keeps_residual_entry_witness:
  "auth_state_of (restore_session (\<lambda>s. None) (initial_world [''admin_token'' \<mapsto> ''t1''])) = Unauthenticated
   \<and> localStorage (restore_session (\<lambda>s. None) (initial_world [''admin_token'' \<mapsto> ''t1'']))
       = [''admin_token'' \<mapsto> ''t1'']
   \<and> headers (request_interceptor
        (restore_session (\<lambda>s. None) (initial_world [''admin_token'' \<mapsto> ''t1'']))
        (login_request ''a@x.com'' ''pw'')) ''Authorization'' = Some ''Bearer t1''
   \<and> auth_state_of (restore_session (\<lambda>s. None) (initial_world [''admin_user'' \<mapsto> ''{}''])) = Unauthenticated
   \<and> localStorage (restore_session (\<lambda>s. None) (initial_world [''admin_user'' \<mapsto> ''{}'']))
       = [''admin_user'' \<mapsto> ''{}'']"
  using restore_keeps_residual_entry [where store = "[''admin_token'' \<mapsto> ''t1'']" and t = "''t1''"
      and parse = "\<lambda>s. None" and c = "login_request ''a@x.com'' ''pw''" and u = "''{}''"]
    restore_keeps_residual_entry [where store = "[''admin_user'' \<mapsto> ''{}'']" and t = "''t1''"
      and parse = "\<lambda>s. None" and c = "login_request ''a@x.com'' ''pw''" and u = "''{}''"]
  by simp

section \<open>Login\<close>

text \<open>
  C5. \<open>login\<close> establishes nothing when it fails. If the login endpoint answers with a
  success status but the returned user's role is not \<open>ADMIN\<close>, \<open>login\<close> returns a failure
  and the whole state is as before: no storage call, no change of \<open>admin\<close> (the failure
  reads "Access denied. Admin privileges required." when a user was returned); with no
  token stored before, a restore after the call is \<open>Unauthenticated\<close>. If the request
  fails, \<open>login\<close> returns a failure carrying the server's \<open>error\<close> when it is truthy and
  \<open>'Login failed'\<close> otherwise; \<open>admin\<close> and \<open>loading\<close> are unchanged and nothing is written
  to storage. (A failure with status 401 also passes the response interceptor, which
  removes the two entries; a store without them is left as it was.)
\<close>

theorem login_failure_atomic:
  "(backend (request_interceptor w (login_request email password)) = Responded r
      \<and> 200 \<le> status r \<and> status r < 300
      \<and> opt_member (opt_member (body r) ''user'') ''role'' \<noteq> JStr ''ADMIN'' \<longrightarrow>
        fst (login stringify backend email password w) = w
        \<and> snd (login stringify backend email password w) \<noteq> LoginSuccess
        \<and> (\<not> nullish (body r) \<and> \<not> nullish (opt_member (body r) ''user'') \<longrightarrow>
             snd (login stringify backend email password w)
               = LoginFailure (JStr ''Access denied. Admin privileges required.''))
        \<and> (localStorage w ''admin_token'' = None \<longrightarrow>
             auth_state_of (restore_session parse
               (initial_world (localStorage (fst (login stringify backend email password w)))))
               = Unauthenticated))
   \<and> (backend (request_interceptor w (login_request email password)) = Responded r
      \<and> \<not> (200 \<le> status r \<and> status r < 300) \<longrightarrow>
        snd (login stringify backend email password w)
          = LoginFailure (if truthy (opt_member (body r) ''error'')
                          then opt_member (body r) ''error'' else JStr ''Login failed'')
        \<and> admin (fst (login stringify backend email password w)) = admin w
        \<and> loading (fst (login stringify backend email password w)) = loading w
        \<and> auth_state_of (fst (login stringify backend email password w)) = auth_state_of w
        \<and> (status r \<noteq> 401 \<longrightarrow> fst (login stringify backend email password w) = w)
        \<and> (storage_calls w (fst (login stringify backend email password w)) = []
            \<or> storage_calls w (fst (login stringify backend email password w))
                = [RemoveItem ''admin_token'', RemoveItem ''admin_user''])
        \<and> (localStorage w ''admin_token'' = None \<and> localStorage w ''admin_user'' = None \<longrightarrow>
             localStorage (fst (login stringify backend email password w)) = localStorage w))
   \<and> (backend (request_interceptor w (login_request email password)) = NoResponse \<longrightarrow>
        login stringify backend email password w = (w, LoginFailure (JStr ''Login failed'')))"
proof -
  let ?l = "login stringify backend email password w"
  have a: "fst ?l = w \<and> snd ?l \<noteq> LoginSuccess
        \<and> (\<not> nullish (body r) \<and> \<not> nullish (opt_member (body r) ''user'') \<longrightarrow>
             snd ?l = LoginFailure (JStr ''Access denied. Admin privileges required.''))
        \<and> (localStorage w ''admin_token'' = None \<longrightarrow>
             auth_state_of (restore_session parse (initial_world (localStorage (fst ?l))))
               = Unauthenticated)"
    if "backend (request_interceptor w (login_request email password)) = Responded r"
      and "200 \<le> status r" and "status r < 300"
      and "opt_member (opt_member (body r) ''user'') ''role'' \<noteq> JStr ''ADMIN''"
    using that login_not_admin [where backend = backend and w = w and email = email and password = password and r = r
        and stringify = stringify]
    by (simp add: restore_absent getItem_def auth_state_of_def isAuthenticated_def setLoading_def)
  have b: "snd ?l = LoginFailure (if truthy (opt_member (body r) ''error'')
                          then opt_member (body r) ''error'' else JStr ''Login failed'')
        \<and> admin (fst ?l) = admin w \<and> loading (fst ?l) = loading w
        \<and> auth_state_of (fst ?l) = auth_state_of w
        \<and> (status r \<noteq> 401 \<longrightarrow> fst ?l = w)
        \<and> (storage_calls w (fst ?l) = []
            \<or> storage_calls w (fst ?l) = [RemoveItem ''admin_token'', RemoveItem ''admin_user''])
        \<and> (localStorage w ''admin_token'' = None \<and> localStorage w ''admin_user'' = None \<longrightarrow>
             localStorage (fst ?l) = localStorage w)"
    if "backend (request_interceptor w (login_request email password)) = Responded r"
      and "\<not> (200 \<le> status r \<and> status r < 300)"
    using that login_rejected [where backend = backend and w = w and email = email and password = password and r = r
        and stringify = stringify]
    by (auto simp: fun_eq_iff auth_state_of_def isAuthenticated_def)
  have c: "?l = (w, LoginFailure (JStr ''Login failed''))"
    if "backend (request_interceptor w (login_request email password)) = NoResponse"
    using that login_no_response [where backend = backend and w = w and email = email
        and password = password and stringify = stringify] by simp
  show ?thesis using a b c by blast
qed


theorem login_failure_atomic_witness:
  "fst (login to_string (\<lambda>c. Responded \<lparr>status = 200, body = JObj [(''token'', JStr ''t1''),
        (''user'', JObj [(''id'', JNum 1), (''email'', JStr ''a@x.com''),
                         (''role'', JStr ''CUSTOMER'')])]\<rparr>)
      ''a@x.com'' ''pw'' (setLoading False (initial_world Map.empty)))
    = setLoading False (initial_world Map.empty)
   \<and> snd (login to_string (\<lambda>c. Responded \<lparr>status = 200, body = JObj [(''token'', JStr ''t1''),
        (''user'', JObj [(''id'', JNum 1), (''email'', JStr ''a@x.com''),
                         (''role'', JStr ''CUSTOMER'')])]\<rparr>)
      ''a@x.com'' ''pw'' (setLoading False (initial_world Map.empty)))
    = LoginFailure (JStr ''Access denied. Admin privileges required.'')
   \<and> auth_state_of (restore_session (\<lambda>s. None) (initial_world (localStorage (fst
       (login to_string (\<lambda>c. Responded \<lparr>status = 200, body = JObj [(''token'', JStr ''t1''),
          (''user'', JObj [(''id'', JNum 1), (''email'', JStr ''a@x.com''),
                           (''role'', JStr ''CUSTOMER'')])]\<rparr>)
        ''a@x.com'' ''pw'' (setLoading False (initial_world Map.empty))))))) = Unauthenticated
   \<and> snd (login to_string
        (\<lambda>c. Responded \<lparr>status = 401, body = JObj [(''error'', JStr ''Invalid credentials'')]\<rparr>)
        ''a@x.com'' ''pw'' (setLoading False (initial_world Map.empty)))
      = LoginFailure (JStr ''Invalid credentials'')
   \<and> localStorage (fst (login to_string
        (\<lambda>c. Responded \<lparr>status = 401, body = JObj [(''error'', JStr ''Invalid credentials'')]\<rparr>)
        ''a@x.com'' ''pw'' (setLoading False (initial_world Map.empty)))) = Map.empty
   \<and> fst (login to_string (\<lambda>c. Responded \<lparr>status = 500, body = JNull\<rparr>)
        ''a@x.com'' ''pw'' (setLoading False (initial_world Map.empty)))
      = setLoading False (initial_world Map.empty)
   \<and> snd (login to_string (\<lambda>c. Responded \<lparr>status = 500, body = JNull\<rparr>)
        ''a@x.com'' ''pw'' (setLoading False (initial_world Map.empty)))
      = LoginFailure (JStr ''Login failed'')
   \<and> login to_string (\<lambda>c. NoResponse)
        ''a@x.com'' ''pw'' (setLoading False (initial_world Map.empty))
      = (setLoading False (initial_world Map.empty), LoginFailure (JStr ''Login failed''))"
proof -
  let ?w = "setLoading False (initial_world Map.empty)"
  have s: "localStorage ?w = Map.empty" by (simp add: setLoading_def)
  note t1 = login_failure_atomic [where w = ?w and email = "''a@x.com''" and password = "''pw''"
      and stringify = to_string and parse = "\<lambda>s. None"
      and backend = "\<lambda>c. Responded \<lparr>status = 200, body = JObj [(''token'', JStr ''t1''),
        (''user'', JObj [(''id'', JNum 1), (''email'', JStr ''a@x.com''),
                         (''role'', JStr ''CUSTOMER'')])]\<rparr>"
      and r = "\<lparr>status = 200, body = JObj [(''token'', JStr ''t1''),
        (''user'', JObj [(''id'', JNum 1), (''email'', JStr ''a@x.com''),
                         (''role'', JStr ''CUSTOMER'')])]\<rparr>"]
  note t2 = login_failure_atomic [where w = ?w and email = "''a@x.com''" and password = "''pw''"
      and stringify = to_string and parse = "\<lambda>s. None"
      and backend = "\<lambda>c. Responded \<lparr>status = 401, body = JObj [(''error'', JStr ''Invalid credentials'')]\<rparr>"
      and r = "\<lparr>status = 401, body = JObj [(''error'', JStr ''Invalid credentials'')]\<rparr>"]
  note t3 = login_failure_atomic [where w = ?w and email = "''a@x.com''" and password = "''pw''"
      and stringify = to_string and parse = "\<lambda>s. None"
      and backend = "\<lambda>c. Responded \<lparr>status = 500, body = JNull\<rparr>"
      and r = "\<lparr>status = 500, body = JNull\<rparr>"]
  note t4 = login_failure_atomic [where w = ?w and email = "''a@x.com''" and password = "''pw''"
      and stringify = to_string and parse = "\<lambda>s. None"
      and backend = "\<lambda>c. NoResponse" and r = "\<lparr>status = 500, body = JNull\<rparr>"]
  have c1: "fst (login to_string (\<lambda>c. Responded \<lparr>status = 200, body = JObj [(''token'', JStr ''t1''),
        (''user'', JObj [(''id'', JNum 1), (''email'', JStr ''a@x.com''),
                         (''role'', JStr ''CUSTOMER'')])]\<rparr>) ''a@x.com'' ''pw'' ?w) = ?w
     \<and> snd (login to_string (\<lambda>c. Responded \<lparr>status = 200, body = JObj [(''token'', JStr ''t1''),
        (''user'', JObj [(''id'', JNum 1), (''email'', JStr ''a@x.com''),
                         (''role'', JStr ''CUSTOMER'')])]\<rparr>) ''a@x.com'' ''pw'' ?w)
       = LoginFailure (JStr ''Access denied. Admin privileges required.'')
     \<and> auth_state_of (restore_session (\<lambda>s. None) (initial_world (localStorage (fst
       (login to_string (\<lambda>c. Responded \<lparr>status = 200, body = JObj [(''token'', JStr ''t1''),
          (''user'', JObj [(''id'', JNum 1), (''email'', JStr ''a@x.com''),
                           (''role'', JStr ''CUSTOMER'')])]\<rparr>)
        ''a@x.com'' ''pw'' ?w))))) = Unauthenticated"
    using t1 s by (auto simp: own_prop_def)
  have c2: "snd (login to_string
        (\<lambda>c. Responded \<lparr>status = 401, body = JObj [(''error'', JStr ''Invalid credentials'')]\<rparr>)
        ''a@x.com'' ''pw'' ?w) = LoginFailure (JStr ''Invalid credentials'')
     \<and> localStorage (fst (login to_string
        (\<lambda>c. Responded \<lparr>status = 401, body = JObj [(''error'', JStr ''Invalid credentials'')]\<rparr>)
        ''a@x.com'' ''pw'' ?w)) = Map.empty"
    using t2 s by (simp add: own_prop_def)
  have c3: "fst (login to_string (\<lambda>c. Responded \<lparr>status = 500, body = JNull\<rparr>)
        ''a@x.com'' ''pw'' ?w) = ?w
     \<and> snd (login to_string (\<lambda>c. Responded \<lparr>status = 500, body = JNull\<rparr>)
        ''a@x.com'' ''pw'' ?w) = LoginFailure (JStr ''Login failed'')"
    using t3 by simp
  have c4: "login to_string (\<lambda>c. NoResponse) ''a@x.com'' ''pw'' ?w
      = (?w, LoginFailure (JStr ''Login failed''))"
    using t4 by simp
  show ?thesis using c1 c2 c3 c4 by blast
qed

section \<open>The two entries are written and cleared together\<close>

text \<open>
  C9. Every operation on the session (restore, login, logout, a request through the
  client with its 401 interception) makes one of three sequences of storage calls: none,
  \<open>setItem\<close> of \<open>admin_token\<close> then \<open>admin_user\<close>, or \<open>removeItem\<close> of \<open>admin_token\<close> then
  \<open>admin_user\<close>; the store changes accordingly and no other key is touched. Hence, from a
  store that holds both entries or neither, every sequence of operations leads to a store
  that holds both or neither. The removal of both on a parse failure is one of the cases.
\<close>

theorem session_entries_together:
  "(storage_calls w (run_op env op w) = []
      \<and> localStorage (run_op env op w) = localStorage w
    \<or> (\<exists>t u. storage_calls w (run_op env op w)
                = [SetItem ''admin_token'' t, SetItem ''admin_user'' u]
          \<and> localStorage (run_op env op w)
                = (localStorage w)(''admin_token'' \<mapsto> t, ''admin_user'' \<mapsto> u))
    \<or> storage_calls w (run_op env op w) = [RemoveItem ''admin_token'', RemoveItem ''admin_user'']
      \<and> localStorage (run_op env op w)
            = (localStorage w)(''admin_token'' := None, ''admin_user'' := None))
   \<and> ((localStorage w ''admin_token'' = None \<longleftrightarrow> localStorage w ''admin_user'' = None) \<longrightarrow>
        (localStorage (run_ops env ops w) ''admin_token'' = None
           \<longleftrightarrow> localStorage (run_ops env ops w) ''admin_user'' = None))"
proof -
  have 1: "storage_calls w (run_op env op w) = []
      \<and> localStorage (run_op env op w) = localStorage w
    \<or> (\<exists>t u. storage_calls w (run_op env op w)
                = [SetItem ''admin_token'' t, SetItem ''admin_user'' u]
          \<and> localStorage (run_op env op w)
                = (localStorage w)(''admin_token'' \<mapsto> t, ''admin_user'' \<mapsto> u))
    \<or> storage_calls w (run_op env op w) = [RemoveItem ''admin_token'', RemoveItem ''admin_user'']
      \<and> localStorage (run_op env op w)
            = (localStorage w)(''admin_token'' := None, ''admin_user'' := None)"
    using run_op_storage [of env op w] by (auto simp: storage_calls_def)
  show ?thesis using 1 run_ops_paired [of w env ops] by simp
qed

theorem session_entries_together_witness:
  "storage_calls (initial_world Map.empty)
      (run_op \<lparr>env_parse = \<lambda>s. None, env_stringify = to_string,
               env_server = \<lambda>c. Responded \<lparr>status = 200, body = JObj [(''token'', JStr ''t1''),
                 (''user'', JObj [(''id'', JNum 1), (''role'', JStr ''ADMIN'')])]\<rparr>\<rparr>
        (Login ''a@x.com'' ''pw'') (initial_world Map.empty))
     = [SetItem ''admin_token'' ''t1'', SetItem ''admin_user'' ''[object Object]'']
   \<and> storage_calls (initial_world [''admin_token'' \<mapsto> ''t1'', ''admin_user'' \<mapsto> ''{}''])
      (run_op \<lparr>env_parse = \<lambda>s. None, env_stringify = to_string,
               env_server = \<lambda>c. NoResponse\<rparr>
        Logout (initial_world [''admin_token'' \<mapsto> ''t1'', ''admin_user'' \<mapsto> ''{}'']))
     = [RemoveItem ''admin_token'', RemoveItem ''admin_user'']
   \<and> (localStorage (run_ops \<lparr>env_parse = \<lambda>s. None, env_stringify = to_string,
               env_server = \<lambda>c. Responded \<lparr>status = 200, body = JObj [(''token'', JStr ''t1''),
                 (''user'', JObj [(''id'', JNum 1), (''role'', JStr ''ADMIN'')])]\<rparr>\<rparr>
        [Restore, Login ''a@x.com'' ''pw'', Restore] (initial_world Map.empty)) ''admin_token'' = None)
     = (localStorage (run_ops \<lparr>env_parse = \<lambda>s. None, env_stringify = to_string,
               env_server = \<lambda>c. Responded \<lparr>status = 200, body = JObj [(''token'', JStr ''t1''),
                 (''user'', JObj [(''id'', JNum 1), (''role'', JStr ''ADMIN'')])]\<rparr>\<rparr>
        [Restore, Login ''a@x.com'' ''pw'', Restore] (initial_world Map.empty)) ''admin_user'' = None)"
proof -
  let ?env = "\<lparr>env_parse = \<lambda>s. None, env_stringify = to_string,
               env_server = \<lambda>c. Responded \<lparr>status = 200, body = JObj [(''token'', JStr ''t1''),
                 (''user'', JObj [(''id'', JNum 1), (''role'', JStr ''ADMIN'')])]\<rparr>\<rparr>"
  let ?off = "\<lparr>env_parse = \<lambda>s. None, env_stringify = to_string, env_server = \<lambda>c. NoResponse\<rparr>"
  let ?w1 = "initial_world [''admin_token'' \<mapsto> ''t1'', ''admin_user'' \<mapsto> ''{}'']"
  have a: "trace (run_op ?env (Login ''a@x.com'' ''pw'') (initial_world Map.empty))
      = [SetItem ''admin_token'' ''t1'', SetItem ''admin_user'' ''[object Object]'']"
    by (simp add: login_def adminAxios_request_def own_prop_def Let_def setAdmin_def setItem_def)
  have b: "trace (run_op ?off Logout ?w1) = [RemoveItem ''admin_token'', RemoveItem ''admin_user'']"
    by (simp add: logout_def setAdmin_def removeItem_def)
  note t1 = session_entries_together [where env = ?env and w = "initial_world Map.empty"
      and op = "Login ''a@x.com'' ''pw''" and ops = "[Restore, Login ''a@x.com'' ''pw'', Restore]"]
  note t2 = session_entries_together [where env = ?off and w = ?w1 and op = Logout and ops = "[]"]
  have c1: "storage_calls (initial_world Map.empty)
      (run_op ?env (Login ''a@x.com'' ''pw'') (initial_world Map.empty))
     = [SetItem ''admin_token'' ''t1'', SetItem ''admin_user'' ''[object Object]'']"
    using t1 a by (simp add: storage_calls_def)
  have c2: "storage_calls ?w1 (run_op ?off Logout ?w1)
     = [RemoveItem ''admin_token'', RemoveItem ''admin_user'']"
    using t2 b by (simp add: storage_calls_def)
  have c3: "(localStorage (run_ops ?env [Restore, Login ''a@x.com'' ''pw'', Restore]
        (initial_world Map.empty)) ''admin_token'' = None)
     = (localStorage (run_ops ?env [Restore, Login ''a@x.com'' ''pw'', Restore]
        (initial_world Map.empty)) ''admin_user'' = None)"
    using t1 by simp
  show ?thesis using c1 c2 c3 by blast
qed

section \<open>Product listing normalization\<close>

text \<open>
  What the normalization does on the shapes it handles. \<open>getAll\<close> maps every raw product
  through it. For a raw product whose \<open>colors\<close> is an array of bare strings and \<open>{value}\<close>
  objects holding a string, and whose \<open>sizes\<close> is an array, the result is a record with
  \<open>image\<close> equal to \<open>main_image\<close>, every other property kept, \<open>colors\<close> the array of plain
  strings (a bare string kept, an object replaced by its \<open>value\<close>), and \<open>sizes\<close> the array in
  which every bare string \<open>s\<close> is wrapped as \<open>{value: s}\<close> and every \<open>{value}\<close> object is
  kept. The example that follows is the one of the specification.
\<close>

theorem product_normalization:
  "(own_prop fs ''colors'' = JArr cs \<and> list_all raw_color cs \<and> own_prop fs ''sizes'' = JArr ss \<longrightarrow>
     (\<exists>gs. normalize_product (JObj fs) = Inr (JObj gs)
       \<and> own_prop gs ''image'' = own_prop fs ''main_image''
       \<and> own_prop gs ''colors'' = JArr (map color_name cs)
       \<and> list_all is_string (map color_name cs)
       \<and> own_prop gs ''sizes'' = JArr (map normalize_size ss)
       \<and> (\<forall>s\<in>set ss. (is_string s \<longrightarrow> normalize_size s = JObj [(''value'', s)])
                      \<and> (\<not> is_string s \<longrightarrow> normalize_size s = s))
       \<and> (list_all raw_size ss \<longrightarrow> list_all is_value_object (map normalize_size ss))
       \<and> (\<forall>k. k \<noteq> ''image'' \<and> k \<noteq> ''colors'' \<and> k \<noteq> ''sizes''
              \<longrightarrow> own_prop gs k = own_prop fs k)))
   \<and> (own_prop ds ''products'' = JArr ps \<and> (\<forall>p\<in>set ps. normalize_product p = Inr (f p)) \<longrightarrow>
        getAll_products (JObj ds) = Inr (JArr (map f ps)))"
proof -
  let ?gs = "set_prop (set_prop (set_prop fs ''image'' (own_prop fs ''main_image''))
                  ''colors'' (JArr (map color_name cs))) ''sizes'' (JArr (map normalize_size ss))"
  have one: "\<exists>gs. normalize_product (JObj fs) = Inr (JObj gs)
       \<and> own_prop gs ''image'' = own_prop fs ''main_image''
       \<and> own_prop gs ''colors'' = JArr (map color_name cs)
       \<and> list_all is_string (map color_name cs)
       \<and> own_prop gs ''sizes'' = JArr (map normalize_size ss)
       \<and> (\<forall>s\<in>set ss. (is_string s \<longrightarrow> normalize_size s = JObj [(''value'', s)])
                      \<and> (\<not> is_string s \<longrightarrow> normalize_size s = s))
       \<and> (list_all raw_size ss \<longrightarrow> list_all is_value_object (map normalize_size ss))
       \<and> (\<forall>k. k \<noteq> ''image'' \<and> k \<noteq> ''colors'' \<and> k \<noteq> ''sizes''
              \<longrightarrow> own_prop gs k = own_prop fs k)"
    if h: "own_prop fs ''colors'' = JArr cs" "list_all raw_color cs" "own_prop fs ''sizes'' = JArr ss"
  proof -
    have n: "normalize_product (JObj fs) = Inr (JObj ?gs)"
      using h by (intro normalize_product_object)
        (simp_all add: normalize_colors_raw normalize_sizes_array)
    have strs: "list_all is_string (map color_name cs)"
      using h(2) by (simp add: list_all_iff normalize_color_raw)
    have objs: "list_all raw_size ss \<longrightarrow> list_all is_value_object (map normalize_size ss)"
      by (simp add: list_all_iff normalize_size_raw)
    show ?thesis
      using n strs objs normalize_size_cases
      by (intro exI [of _ ?gs]) (simp add: own_prop_set_prop)
  qed
  show ?thesis using one getAll_products_array [of ds ps f] by blast
qed

theorem product_normalization_example:
  "normalize_product (JObj [(''colors'', JArr [JStr ''red'', JObj [(''value'', JStr ''blue'')]]),
                            (''sizes'', JArr [JStr ''7'', JObj [(''value'', JStr ''8'')]])])
     = Inr (JObj [(''colors'', JArr [JStr ''red'', JStr ''blue'']),
                  (''sizes'', JArr [JObj [(''value'', JStr ''7'')], JObj [(''value'', JStr ''8'')]]),
                  (''image'', JUndefined)])
   \<and> getAll_products (JObj [(''products'', JArr
        [JObj [(''colors'', JArr [JStr ''red'', JObj [(''value'', JStr ''blue'')]]),
               (''sizes'', JArr [JStr ''7'', JObj [(''value'', JStr ''8'')]])]])])
     = Inr (JArr [JObj [(''colors'', JArr [JStr ''red'', JStr ''blue'']),
                  (''sizes'', JArr [JObj [(''value'', JStr ''7'')], JObj [(''value'', JStr ''8'')]]),
                  (''image'', JUndefined)]])"
proof -
  let ?cs = "[JStr ''red'', JObj [(''value'', JStr ''blue'')]]"
  let ?ss = "[JStr ''7'', JObj [(''value'', JStr ''8'')]]"
  let ?fs = "[(''colors'', JArr ?cs), (''sizes'', JArr ?ss)]"
  let ?q = "JObj [(''colors'', JArr [JStr ''red'', JStr ''blue'']),
                  (''sizes'', JArr [JObj [(''value'', JStr ''7'')], JObj [(''value'', JStr ''8'')]]),
                  (''image'', JUndefined)]"
  note t = product_normalization [where fs = ?fs and cs = ?cs and ss = ?ss
      and ds = "[(''products'', JArr [JObj ?fs])]" and ps = "[JObj ?fs]" and f = "\<lambda>p. ?q"]
  have h: "own_prop ?fs ''colors'' = JArr ?cs \<and> list_all raw_color ?cs
      \<and> own_prop ?fs ''sizes'' = JArr ?ss"
    by (simp add: own_prop_def)
  from t [THEN conjunct1, THEN mp, OF h] obtain gs where
    gs: "normalize_product (JObj ?fs) = Inr (JObj gs)"
      "own_prop gs ''colors'' = JArr (map color_name ?cs)"
      "own_prop gs ''sizes'' = JArr (map normalize_size ?ss)"
    by blast
  have "gs = set_prop (set_prop (set_prop ?fs ''image'' (own_prop ?fs ''main_image''))
                  ''colors'' (JArr (map color_name ?cs))) ''sizes'' (JArr (map normalize_size ?ss))"
    using gs(1) normalize_product_object [of ?fs "JArr (map color_name ?cs)"
        "JArr (map normalize_size ?ss)"]
    by (simp add: normalize_colors_raw normalize_sizes_array own_prop_def)
  then have n: "normalize_product (JObj ?fs) = Inr ?q"
    using gs(1) by (simp add: own_prop_def normalize_size_def)
  have g: "getAll_products (JObj [(''products'', JArr [JObj ?fs])]) = Inr (JArr [?q])"
    using t [THEN conjunct2] n by (simp add: own_prop_def)
  show ?thesis using n g by blast
qed

text \<open>
  A missing or empty \<open>colors\<close> or \<open>sizes\<close> becomes the empty array, and a response
  without \<open>products\<close> gives the empty list (the three \<open>|| []\<close> defaults).
\<close>

lemma normalization_defaults:
  "normalize_colors JUndefined = Inr (JArr [])"
  "normalize_colors JNull = Inr (JArr [])"
  "normalize_sizes JUndefined = Inr (JArr [])"
  "normalize_sizes JNull = Inr (JArr [])"
  "own_prop fs ''colors'' = JUndefined \<Longrightarrow> own_prop fs ''sizes'' = JUndefined \<Longrightarrow>
     normalize_product (JObj fs) =
       Inr (JObj (set_prop (set_prop (set_prop fs ''image'' (own_prop fs ''main_image''))
                    ''colors'' (JArr [])) ''sizes'' (JArr [])))"
  "nullish (own_prop ds ''products'') \<Longrightarrow> getAll_products (JObj ds) = Inr (JArr [])"
  by (simp_all add: normalize_colors_def normalize_sizes_def normalize_product_def
      getAll_products_def)

text \<open>
  C1. The normalization is to give every product an \<open>image\<close> equal to its \<open>main_image\<close>,
  \<open>colors\<close> as a sequence of plain strings and \<open>sizes\<close> as a sequence of \<open>{value}\<close> objects,
  a bare size \<open>v\<close> being wrapped as \<open>{value: v}\<close>; the code's comment on the line says the
  same ("Sizes as array of objects with value property"). The code wraps a size only when
  it is a string, so a bare number is missed: for the raw product with \<open>sizes: [7]\<close> the
  result has \<open>sizes: [7]\<close>. The size \<open>7\<close> is not wrapped as \<open>{value: 7}\<close> and the normalized
  \<open>sizes\<close> is not a sequence of \<open>{value}\<close> objects.
\<close>

theorem bare_number_size_kept:
  "normalize_product (JObj [(''main_image'', JStr ''a.png''), (''colors'', JArr [JStr ''red'']),
                            (''sizes'', JArr [JNum 7])])
     = Inr (JObj [(''main_image'', JStr ''a.png''), (''colors'', JArr [JStr ''red'']),
                  (''sizes'', JArr [JNum 7]), (''image'', JStr ''a.png'')])
   \<and> normalize_size (JNum 7) \<noteq> JObj [(''value'', JNum 7)]
   \<and> \<not> value_object_array (JArr [JNum 7])"
  by (simp add: normalize_product_def normalize_colors_def normalize_sizes_def
      normalize_color_def normalize_size_def own_prop_def)

text \<open>
  C2. Normalization is idempotent. Normalizing a normalized record (\<open>image\<close> set from
  \<open>main_image\<close>, \<open>colors\<close> an array of strings, \<open>sizes\<close> an array of \<open>{value}\<close> objects)
  returns the same record. For every raw product (an object whose \<open>colors\<close>, if given, is
  an array of raw colors and whose \<open>sizes\<close>, if given, is an array) normalizing succeeds and
  normalizing the result again yields the same result; the result is a normalized record
  when the raw sizes are strings or \<open>{value}\<close> objects.
\<close>

theorem normalization_idempotent:
  "(normalized_product q \<longrightarrow> normalize_product q = Inr q)
   \<and> (raw_product p \<longrightarrow>
        (\<exists>q'. normalize_product p = Inr q' \<and> normalize_product q' = Inr q'
           \<and> (raw_size_array (opt_member p ''sizes'') \<longrightarrow> normalized_product q')))"
proof -
  have a: "normalize_product q = Inr q" if h: "normalized_product q"
  proof -
    obtain gs where q: "q = JObj gs" using h by (cases q) simp_all
    obtain cs where cs: "own_prop gs ''colors'' = JArr cs" "list_all is_string cs"
      using h q by (cases "own_prop gs ''colors''") simp_all
    obtain ss where ss: "own_prop gs ''sizes'' = JArr ss" "list_all is_value_object ss"
      using h q by (cases "own_prop gs ''sizes''") simp_all
    have "map normalize_size ss = ss"
      using ss(2) by (simp add: list_all_iff map_idI normalize_size_value_object)
    moreover have "map_of gs ''image'' = Some (own_prop gs ''main_image'')"
      using h q by simp
    ultimately show ?thesis unfolding q using cs ss(1) by (intro normalize_again)
  qed
  show ?thesis using a normalize_raw_product [of p] by blast
qed

theorem normalization_idempotent_witness:
  "normalize_product (JObj [(''colors'', JArr [JStr ''red'', JStr ''blue'']),
                  (''sizes'', JArr [JObj [(''value'', JStr ''7'')], JObj [(''value'', JStr ''8'')]]),
                  (''image'', JUndefined)])
     = Inr (JObj [(''colors'', JArr [JStr ''red'', JStr ''blue'']),
                  (''sizes'', JArr [JObj [(''value'', JStr ''7'')], JObj [(''value'', JStr ''8'')]]),
                  (''image'', JUndefined)])
   \<and> normalize_product (JObj [(''colors'', JArr [JStr ''red'', JObj [(''value'', JStr ''blue'')]]),
                            (''sizes'', JArr [JStr ''7'', JObj [(''value'', JStr ''8'')]])])
     = Inr (JObj [(''colors'', JArr [JStr ''red'', JStr ''blue'']),
                  (''sizes'', JArr [JObj [(''value'', JStr ''7'')], JObj [(''value'', JStr ''8'')]]),
                  (''image'', JUndefined)])
   \<and> normalized_product (JObj [(''colors'', JArr [JStr ''red'', JStr ''blue'']),
                  (''sizes'', JArr [JObj [(''value'', JStr ''7'')], JObj [(''value'', JStr ''8'')]]),
                  (''image'', JUndefined)])"
proof -
  let ?p = "JObj [(''colors'', JArr [JStr ''red'', JObj [(''value'', JStr ''blue'')]]),
                  (''sizes'', JArr [JStr ''7'', JObj [(''value'', JStr ''8'')]])]"
  let ?q = "JObj [(''colors'', JArr [JStr ''red'', JStr ''blue'']),
                  (''sizes'', JArr [JObj [(''value'', JStr ''7'')], JObj [(''value'', JStr ''8'')]]),
                  (''image'', JUndefined)]"
  have nq: "normalized_product ?q" by (simp add: own_prop_def)
  have rp: "raw_product ?p" by (simp add: own_prop_def)
  have n: "normalize_product ?p = Inr ?q"
    by (simp add: normalize_product_def normalize_colors_def normalize_sizes_def
        normalize_color_def normalize_size_def own_prop_def)
  note t = normalization_idempotent [of ?q ?p]
  have again: "normalize_product ?q = Inr ?q"
    using t [THEN conjunct1] nq by blast
  obtain q' where q': "normalize_product ?p = Inr q'" "normalize_product q' = Inr q'"
    using t [THEN conjunct2] rp by blast
  have "q' = ?q" using q'(1) n by simp
  with q' again nq show ?thesis by blast
qed

section \<open>Color and size enumeration\<close>

text \<open>
  C3. The enumeration is meant to list each distinct color and size once. The code keys
  the \<open>Map\<close> of colors by the raw element (both branches of its conditional are \<open>c\<close>) and
  builds the \<open>Set\<close> of sizes from the raw elements, so an element is never reduced to its
  value and objects are compared by identity. For two products that each list the color
  \<open>blue\<close> once as a bare string and once as \<open>{value: 'blue'}\<close> (and the size \<open>8\<close> likewise),
  the one distinct color comes out three times: the string once and each of the two
  objects once. (Bare values alone are listed once each: \<open>unique_colors_primitive\<close>,
  \<open>sizes_list_primitive\<close>.)
\<close>

theorem enumeration_keeps_duplicates:
  "uniqueColors (JObj [(''products'', JArr
     [JObj [(''colors'', JArr [JStr ''blue'', JObj [(''value'', JStr ''blue'')]]),
            (''sizes'', JArr [JStr ''8'', JObj [(''value'', JStr ''8'')]])],
      JObj [(''colors'', JArr [JStr ''blue'', JObj [(''value'', JStr ''blue'')]]),
            (''sizes'', JArr [JStr ''8'', JObj [(''value'', JStr ''8'')]])]])])
    = Inr [JObj [(''id'', JStr ''blue''), (''value'', JStr ''blue'')],
           JObj [(''id'', JObj [(''value'', JStr ''blue'')]),
                 (''value'', JObj [(''value'', JStr ''blue'')])],
           JObj [(''id'', JObj [(''value'', JStr ''blue'')]),
                 (''value'', JObj [(''value'', JStr ''blue'')])]]
   \<and> sizes_list (JObj [(''products'', JArr
     [JObj [(''colors'', JArr [JStr ''blue'', JObj [(''value'', JStr ''blue'')]]),
            (''sizes'', JArr [JStr ''8'', JObj [(''value'', JStr ''8'')]])],
      JObj [(''colors'', JArr [JStr ''blue'', JObj [(''value'', JStr ''blue'')]]),
            (''sizes'', JArr [JStr ''8'', JObj [(''value'', JStr ''8'')]])]])])
    = Inr [JObj [(''id'', JStr ''8''), (''value'', JStr ''8'')],
           JObj [(''id'', JObj [(''value'', JStr ''8'')]),
                 (''value'', JObj [(''value'', JStr ''8'')])],
           JObj [(''id'', JObj [(''value'', JStr ''8'')]),
                 (''value'', JObj [(''value'', JStr ''8'')])]]"
  by (simp add: uniqueColors_def sizes_list_def flatten_products_def prop_or_empty_def
      own_prop_def new_Map_def Map_values_def color_entry_def new_Set_def Set_add_def)

end
